theory Spec2Isabelle
  imports Complex_Main "HOL-Library.Multiset"
begin

section \<open>String normalisation (string\_normalization/normalize.hpp, splitter.cpp)\<close>

text \<open>
  A C++ \<open>std::string\<close> is a sequence of bytes; it is modelled as a \<open>string\<close>
  (a list of 8-bit \<open>char\<close>s). Multi-byte UTF-8 characters are spelled out byte by byte.
\<close>

definition tolower_c :: "char \<Rightarrow> char" where
  \<comment> \<open>\<open>std::tolower\<close> on an \<open>unsigned char\<close> in the "C" locale: only \<open>A\<close>..\<open>Z\<close> change.\<close>
  "tolower_c c =
     (let n = (of_char c :: nat) in if 65 \<le> n \<and> n \<le> 90 then char_of (n + 32) else c)"

definition to_lower :: "string \<Rightarrow> string" where
  "to_lower input = map tolower_c input"

definition GERMAN_ASCII_MAPPINGS :: "(string \<times> string) list" where
  \<comment> \<open>u-umlaut, o-umlaut, a-umlaut, sharp s, o-slash, a-ring as UTF-8 byte pairs.\<close>
  "GERMAN_ASCII_MAPPINGS =
     [([CHR 0xC3, CHR 0xBC], ''ue''),
      ([CHR 0xC3, CHR 0xB6], ''oe''),
      ([CHR 0xC3, CHR 0xA4], ''ae''),
      ([CHR 0xC3, CHR 0x9F], ''ss''),
      ([CHR 0xC3, CHR 0xB8], ''o''),
      ([CHR 0xC3, CHR 0xA5], ''aa'')]"

fun match_mapping :: "(string \<times> string) list \<Rightarrow> string \<Rightarrow> (string \<times> string) option" where
  \<comment> \<open>The inner \<open>for\<close> of \<open>replace_german_chars\<close>: the first mapping whose pattern
      stands at the current position.\<close>
  "match_mapping [] s = None"
| "match_mapping ((pat, rep) # ms) s =
     (if length pat \<le> length s \<and> take (length pat) s = pat then Some (pat, rep)
      else match_mapping ms s)"

lemma match_mapping_german_length:
  "match_mapping GERMAN_ASCII_MAPPINGS s = Some (pat, rep) \<Longrightarrow> length pat = 2"
  by (auto simp: GERMAN_ASCII_MAPPINGS_def split: if_splits)

function replace_german_chars :: "string \<Rightarrow> string" where
  "replace_german_chars [] = []"
| "replace_german_chars (c # cs) =
     (case match_mapping GERMAN_ASCII_MAPPINGS (c # cs) of
        Some (pat, rep) \<Rightarrow> rep @ replace_german_chars (drop (length pat) (c # cs))
      | None \<Rightarrow> c # replace_german_chars cs)"
  by pat_completeness auto
termination
  by (relation "measure length") (auto dest: match_mapping_german_length)

definition strip_to_ascii :: "string \<Rightarrow> string" where
  "strip_to_ascii input = filter (\<lambda>c. (of_char c :: nat) < 128) input"

definition nfkd_normalize :: "(string \<Rightarrow> string option) \<Rightarrow> string \<Rightarrow> string" where
  \<comment> \<open>\<open>icu\<close> stands for ICU's NFKD normaliser on UTF-8 (\<open>None\<close>: the library reported
      a failure); the function is a parameter because ICU is not part of the repository.\<close>
  "nfkd_normalize icu lower_name =
     (case icu lower_name of None \<Rightarrow> lower_name | Some normalized \<Rightarrow> strip_to_ascii normalized)"

function split_all :: "char \<Rightarrow> string \<Rightarrow> string list" where
  \<comment> \<open>\<open>StringViewSplitter::split_all\<close>: skip delimiters, take one token, repeat.\<close>
  "split_all d s =
     (let s1 = dropWhile (\<lambda>c. c = d) s in
      if s1 = [] then []
      else takeWhile (\<lambda>c. c \<noteq> d) s1 # split_all d (dropWhile (\<lambda>c. c \<noteq> d) s1))"
  by pat_completeness auto
termination
proof (relation "measure (\<lambda>(d, s). length s)", goal_cases)
  case 1
  show ?case by simp
next
  case (2 d s s1)
  then obtain c cs where s1: "s1 = c # cs" and "c \<noteq> d"
    by (metis (mono_tags, lifting) dropWhile_eq_Cons_conv neq_Nil_conv)
  then have "length (dropWhile (\<lambda>c. c \<noteq> d) s1) \<le> length cs"
    by (simp add: length_dropWhile_le)
  moreover have "length s1 \<le> length s"
    using 2 by (simp add: length_dropWhile_le)
  ultimately show ?case using s1 by simp
qed

definition split_all_strings :: "char \<Rightarrow> string \<Rightarrow> string list" where
  "split_all_strings d s = split_all d s"


declare split_all.simps [simp del]

section \<open>Name decomposer (name\_decomposer.cpp)\<close>

definition WHITESPACE :: string where
  "WHITESPACE = [CHR '' '', CHR 0x09, CHR 0x0A, CHR 0x0D]"

definition PASTE_NOISE :: string where
  \<comment> \<open>double quote, single quote, \<open><\<close>, \<open>>\<close>\<close>
  "PASTE_NOISE = [CHR 0x22, CHR 0x27, CHR ''<'', CHR ''>'']"

definition TRAILING_PUNCTUATION :: string where
  "TRAILING_PUNCTUATION = ''.,;:!?}]''"

definition REMOVABLE_TOKENS :: "string list" where
  "REMOVABLE_TOKENS =
     [''jr'', ''sr'', ''ii'', ''iii'', ''iv'', ''v'', ''phd'', ''md'', ''esq'', ''dr'',
      ''mr'', ''mrs'', ''ms'', ''prof'', ''sir'']"

definition SURNAME_PARTICLES :: "string list" where
  "SURNAME_PARTICLES =
     [''santa'', ''san'', ''st'', ''von'', ''van'', ''de'', ''der'', ''dello'', ''vander'',
      ''del'', ''de la'', ''vom'', ''dela'', ''de los'', ''dos'', ''la'', ''los'', ''le'',
      ''du'', ''di'', ''da'', ''mac'', ''al'', ''abu'', ''bin'', ''ibn'', ''della'']"

definition contains :: "string list \<Rightarrow> string \<Rightarrow> bool" where
  "contains arr token = list_ex (\<lambda>item. token = item) arr"

definition trim :: "string \<Rightarrow> string" where
  \<comment> \<open>\<open>find_first_not_of\<close> / \<open>find_last_not_of\<close> over \<open>WHITESPACE\<close>, then \<open>substr\<close>.\<close>
  "trim str =
     rev (dropWhile (\<lambda>c. c \<in> set WHITESPACE) (rev (dropWhile (\<lambda>c. c \<in> set WHITESPACE) str)))"

definition remove_tokens :: "string list \<Rightarrow> string list \<Rightarrow> string list" where
  \<comment> \<open>first loop erases from the front, second loop pops from the back\<close>
  "remove_tokens tokens removable_tokens =
     rev (dropWhile (contains removable_tokens)
            (rev (dropWhile (contains removable_tokens) tokens)))"

definition is_regex_space :: "char \<Rightarrow> bool" where
  \<comment> \<open>the class \<open>\s\<close> of \<open>std::regex\<close> in the classic locale\<close>
  "is_regex_space c =
     (c \<in> set [CHR '' '', CHR 0x09, CHR 0x0A, CHR 0x0B, CHR 0x0C, CHR 0x0D])"

function collapse_spaces :: "string \<Rightarrow> string" where
  \<comment> \<open>\<open>std::regex_replace(result, std::regex("\\s{2,}"), " ")\<close>: every maximal run of
      two or more whitespace characters becomes one space.\<close>
  "collapse_spaces [] = []"
| "collapse_spaces (c # cs) =
     (if is_regex_space c \<and> cs \<noteq> [] \<and> is_regex_space (hd cs)
      then CHR '' '' # collapse_spaces (dropWhile is_regex_space cs)
      else c # collapse_spaces cs)"
  by pat_completeness auto
termination
  by (relation "measure length") (auto simp: length_dropWhile_le less_Suc_eq_le)

fun join_tokens :: "string list \<Rightarrow> string" where
  \<comment> \<open>the "join back" loop: tokens separated by one space\<close>
  "join_tokens [] = []"
| "join_tokens [t] = t"
| "join_tokens (t # ts) = t @ CHR '' '' # join_tokens ts"

definition normalize_full_name :: "(string \<Rightarrow> string option) \<Rightarrow> string \<Rightarrow> string" where
  "normalize_full_name icu raw_input =
     (if raw_input = [] then []
      else
        let trimmed = trim raw_input in
        if trimmed = [] then []
        else
          let result = to_lower trimmed;
              result = replace_german_chars result;
              result = nfkd_normalize icu result;
              result = rev (dropWhile (\<lambda>c. c \<in> set TRAILING_PUNCTUATION) (rev result));
              result = filter (\<lambda>c. c \<notin> set PASTE_NOISE) result;
              result = collapse_spaces result;
              tokens = remove_tokens (split_all_strings (CHR '' '') result) REMOVABLE_TOKENS
          in if tokens = [] then [] else join_tokens tokens)"

fun views_split :: "char \<Rightarrow> string \<Rightarrow> string list" where
  \<comment> \<open>\<open>std::views::split\<close> on one character: every segment, the empty ones included.
      It is only called on a string that contains the delimiter.\<close>
  "views_split d [] = [[]]"
| "views_split d (c # cs) =
     (if c = d then [] # views_split d cs
      else (case views_split d cs of
              [] \<Rightarrow> [[c]]
            | seg # segs \<Rightarrow> (c # seg) # segs))"

record NameDecomposer =
  cleaned_full_name :: string
  first_names :: "string list"
  middle_names :: "string list"
  last_names :: "string list"

fun process_remaining ::
  "string list \<Rightarrow> string list \<Rightarrow> string list \<Rightarrow> string list \<times> string list" where
  \<comment> \<open>The loop \<open>for (i = 1; i < n; ++i)\<close> of \<open>parse_name\<close> over the parts from index
      \<open>i\<close> on; \<open>i < n - 1\<close> holds exactly when a part follows.\<close>
  "process_remaining [] middles lasts = (middles, lasts)"
| "process_remaining (p # ps) middles lasts =
     (if contains SURNAME_PARTICLES p then (middles, lasts @ (p # ps))
      else if ps \<noteq> [] then process_remaining ps (middles @ [p]) lasts
      else process_remaining ps middles (lasts @ [p]))"

definition parse_name :: "string \<Rightarrow> NameDecomposer" where
  "parse_name cleaned =
     (let empty_nd = \<lparr>cleaned_full_name = cleaned, first_names = [], middle_names = [],
                       last_names = []\<rparr> in
      if cleaned = [] then empty_nd
      else
        case split_all_strings (CHR '' '') cleaned of
          [] \<Rightarrow> empty_nd
        | p0 # rest \<Rightarrow>
            let firsts =
                  (if CHR ''-'' \<in> set p0
                   then filter (\<lambda>part. part \<noteq> []) (views_split (CHR ''-'') p0)
                   else [p0]);
                (middles, lasts) = process_remaining rest [] []
            in \<lparr>cleaned_full_name = cleaned, first_names = firsts, middle_names = middles,
                last_names = lasts\<rparr>)"

definition NameDecomposer_ctor :: "(string \<Rightarrow> string option) \<Rightarrow> string \<Rightarrow> NameDecomposer" where
  \<comment> \<open>the constructor: normalise, then parse immediately\<close>
  "NameDecomposer_ctor icu full_name = parse_name (normalize_full_name icu full_name)"

definition has_middle_name :: "NameDecomposer \<Rightarrow> bool" where
  "has_middle_name nd = (middle_names nd \<noteq> [])"

definition has_multiple_first_names :: "NameDecomposer \<Rightarrow> bool" where
  "has_multiple_first_names nd = (length (first_names nd) > 1)"

definition has_multiple_middle_names :: "NameDecomposer \<Rightarrow> bool" where
  "has_multiple_middle_names nd = (length (middle_names nd) > 1)"

definition has_multiple_last_names :: "NameDecomposer \<Rightarrow> bool" where
  "has_multiple_last_names nd = (length (last_names nd) > 1)"

definition icu_nfkd_ascii :: "string \<Rightarrow> string option" where
  \<comment> \<open>ICU's NFKD on text that is already ASCII: the text comes back unchanged. Used only
      to run the model on concrete ASCII names.\<close>
  "icu_nfkd_ascii s = Some s"


section \<open>Investor feature extractor (investor\_feature\_extractor.cpp)\<close>

unbundle bit_operations_syntax

record Flags =
  has_german_char :: bool
  has_nfkd_normalized :: bool
  has_nickname :: bool

definition NICKNAME_MAPPINGS :: "(string \<times> string list) list" where
  "NICKNAME_MAPPINGS =
     [(''alexander'', [''alex'']), (''andrew'', [''andy'']), (''anne'', [''annie'', ''nancy'']),
      (''arthur'', [''art'']), (''benjamin'', [''ben'']), (''william'', [''bill'', ''will'']),
      (''robert'', [''bob'', ''bobby'', ''rob'']), (''catherine'', [''cathy'']),
      (''charles'', [''charlie'', ''chuck'']), (''daniel'', [''dan'', ''danny'']),
      (''david'', [''dave'']), (''donald'', [''don'']), (''edward'', [''ed'', ''eddie'']),
      (''elizabeth'', [''eliza'', ''liz'', ''liza'']), (''eleanor'', [''ellie'']),
      (''francis'', [''frank'']), (''frederick'', [''fred'']), (''gerald'', [''gary'', ''jerry'']),
      (''gregory'', [''greg'']), (''harold'', [''harry'', ''hal'']),
      (''john'', [''jack'', ''johnny'']), (''jacob'', [''jake'']), (''janet'', [''jan'']),
      (''jeffrey'', [''jeff'']), (''jennifer'', [''jen'', ''jenny'']),
      (''james'', [''jim'', ''jimmy'']), (''joseph'', [''joe'', ''joey'', ''jody'']),
      (''jonathan'', [''jon'']), (''joshua'', [''josh'']), (''joy'', [''joyce'']),
      (''judith'', [''judy'']), (''katherine'', [''kate'', ''kathy'']), (''kenneth'', [''ken'']),
      (''lawrence'', [''larry'']), (''lewis'', [''lou'']), (''margaret'', [''maggie'', ''marge'']),
      (''martin'', [''marty'']), (''matthew'', [''matt'']), (''megan'', [''meg'']),
      (''melvin'', [''mel'']), (''michael'', [''mike'']), (''nicholas'', [''nick'']),
      (''patrick'', [''pat'']), (''peter'', [''pete'']), (''philip'', [''phil'']),
      (''richard'', [''rick'', ''rich'']), (''ronald'', [''ron'']), (''samuel'', [''sam'']),
      (''steven'', [''steve'']), (''susan'', [''sue'']), (''theodore'', [''ted'']),
      (''terence'', [''terry'']), (''timothy'', [''tim'']), (''thomas'', [''tom'']),
      (''anthony'', [''tony'']), (''victor'', [''vic'']), (''zachary'', [''zack'', ''zak'']),
      (''nastya'', [''nastia'']), (''douglas'', [''doug'']), (''mitchell'', [''mitch'']),
      (''wesley'', [''wes'']), (''patricia'', [''tricia'']), (''rajiv'', [''raj''])]"

fun find_nicknames_in :: "(string \<times> string list) list \<Rightarrow> string \<Rightarrow> string list" where
  "find_nicknames_in [] formal_name = []"
| "find_nicknames_in ((entry_formal_name, nicknames) # entries) formal_name =
     (if entry_formal_name = formal_name then nicknames
      else find_nicknames_in entries formal_name)"

definition find_nicknames :: "string \<Rightarrow> string list" where
  "find_nicknames formal_name = find_nicknames_in NICKNAME_MAPPINGS formal_name"

function parse_utf8_chars :: "string \<Rightarrow> string list" where
  "parse_utf8_chars [] = []"
| "parse_utf8_chars (c # cs) =
     (let n = (of_char c :: nat);
          len = (if n AND 0xE0 = 0xC0 then 2
                 else if n AND 0xF0 = 0xE0 then 3
                 else if n AND 0xF8 = 0xF0 then 4
                 else (1::nat));
          len = (if len > length (c # cs) then length (c # cs) else len)
      in take len (c # cs) # parse_utf8_chars (drop len (c # cs)))"
  by pat_completeness auto
termination
  by (relation "measure length") (auto split: if_splits)

definition has_german_characters :: "string list \<Rightarrow> bool" where
  "has_german_characters name_chars = list_ex (\<lambda>ch. replace_german_chars ch \<noteq> ch) name_chars"

definition would_nfkd_normalize :: "(string \<Rightarrow> string option) \<Rightarrow> string \<Rightarrow> bool" where
  "would_nfkd_normalize icu lower_name = (nfkd_normalize icu lower_name \<noteq> lower_name)"

definition extract_first_token :: "string \<Rightarrow> string" where
  \<comment> \<open>\<open>find_first_not_of(' ')\<close>, then up to the next space (or the end)\<close>
  "extract_first_token lower_name =
     takeWhile (\<lambda>c. c \<noteq> CHR '' '') (dropWhile (\<lambda>c. c = CHR '' '') lower_name)"

text \<open>\<open>InvestorFeatureExtractor::extract\<close> (the name \<open>extract\<close> is taken in Isabelle).\<close>

definition extract_flags :: "(string \<Rightarrow> string option) \<Rightarrow> string \<Rightarrow> Flags" where
  "extract_flags icu full_name =
     (if full_name = []
      then \<lparr>has_german_char = False, has_nfkd_normalized = False, has_nickname = False\<rparr>
      else
        let lower = to_lower full_name;
            chars = parse_utf8_chars lower;
            first_token = extract_first_token lower
        in \<lparr>has_german_char = has_german_characters chars,
            has_nfkd_normalized = would_nfkd_normalize icu lower,
            has_nickname = (first_token \<noteq> [] \<and> find_nicknames first_token \<noteq> [])\<rparr>)"

section \<open>Template metadata (data\_loader/templates\_loader.hpp)\<close>

text \<open>
  C++ \<open>int\<close> fields are modelled as \<open>int\<close> (no arithmetic is done on them here),
  \<open>size_t\<close> as \<open>nat\<close>, \<open>float\<close> and \<open>double\<close> values as \<open>real\<close>.
\<close>

datatype Group = First | Middle | Last | Unknown

record TemplateToken =
  group :: Group
  index :: nat
  use_original :: bool
  use_nfkd :: bool
  use_translit :: bool
  use_nickname :: bool
  use_surname_particle :: bool
  use_initial :: bool
  separator :: "string option"

record CandidateTemplate =
  template_id :: int
  token_seq :: "TemplateToken list"
  support_count :: int
  coverage_pct :: real
  in_mined_rules :: bool
  max_rule_confidence :: real
  avg_rule_confidence :: real
  uses_middle_name :: bool
  uses_multiple_firsts :: bool
  uses_multiple_middles :: bool
  uses_multiple_lasts :: bool

record FirmStats =
  num_templates :: int
  num_investors :: int
  diversity_ratio :: real
  is_single_template :: bool
  is_shared_infra :: bool
  firm_is_multi_domain :: bool

text \<open>
  The fields of \<open>FirmTemplateUsage\<close> carry the prefix \<open>usage_\<close> where the name is
  already a field of \<open>CandidateTemplate\<close>.
\<close>

record FirmTemplateUsage =
  usage_support_count :: int
  usage_coverage_pct :: real
  is_top_template :: bool

record CacheEntry =
  canonical_firm :: string
  match_score :: real

definition FEATURES_PER_ROW :: nat where
  "FEATURES_PER_ROW = 27"


section \<open>Feature-matrix builder (feature\_matrix\_builder.cpp)\<close>

definition float_of_bool :: "bool \<Rightarrow> real" where
  \<comment> \<open>\<open>static_cast<float>(b)\<close> for a \<open>bool\<close>\<close>
  "float_of_bool b = (if b then 1 else 0)"

definition emplace_back :: "'a list \<Rightarrow> 'a \<Rightarrow> 'a list" where
  "emplace_back v x = v @ [x]"

definition dummy_stats :: FirmStats where
  \<comment> \<open>the value-initialised \<open>FirmStats{}\<close>\<close>
  "dummy_stats =
     \<lparr>num_templates = 0, num_investors = 0, diversity_ratio = 0, is_single_template = False,
      is_shared_infra = False, firm_is_multi_domain = False\<rparr>"

definition append_feature_row ::
  "(int \<Rightarrow> real) \<Rightarrow> bool \<Rightarrow> bool \<Rightarrow> bool \<Rightarrow> bool \<Rightarrow> Flags \<Rightarrow> FirmStats \<Rightarrow>
   (int \<rightharpoonup> FirmTemplateUsage) \<Rightarrow> real list \<Rightarrow> CandidateTemplate \<Rightarrow> real list" where
  \<comment> \<open>One pass through the body of \<open>for (const auto &tmpl : templates)\<close>.
      \<open>float_of_int\<close> is \<open>static_cast<float>\<close> on an \<open>int\<close> (rounding to the nearest
      \<open>float\<close>), kept as a parameter.\<close>
  "append_feature_row float_of_int name_has_middle name_has_multiple_firsts
       name_has_multiple_middles name_has_multiple_lasts flags stats firm_template_usage
       flat_matrix tmpl =
     (let usage_it = firm_template_usage (template_id tmpl);
          in_firm_templates = (usage_it \<noteq> None);
          firm_support_count = (case usage_it of None \<Rightarrow> 0 | Some usage \<Rightarrow> usage_support_count usage);
          firm_coverage_pct = (case usage_it of None \<Rightarrow> 0 | Some usage \<Rightarrow> usage_coverage_pct usage);
          is_top = (case usage_it of None \<Rightarrow> False | Some usage \<Rightarrow> is_top_template usage);
          clash =
            ((uses_middle_name tmpl \<and> name_has_middle) \<or>
             (uses_multiple_firsts tmpl \<and> name_has_multiple_firsts) \<or>
             (uses_multiple_middles tmpl \<and> name_has_multiple_middles) \<or>
             (uses_multiple_lasts tmpl \<and> name_has_multiple_lasts));
          flat_matrix = emplace_back flat_matrix (float_of_bool in_firm_templates);
          flat_matrix = emplace_back flat_matrix (float_of_bool (is_shared_infra stats));
          flat_matrix = emplace_back flat_matrix (float_of_bool (firm_is_multi_domain stats));
          flat_matrix = emplace_back flat_matrix (float_of_bool (has_german_char flags));
          flat_matrix = emplace_back flat_matrix (float_of_bool (has_nfkd_normalized flags));
          flat_matrix = emplace_back flat_matrix (float_of_bool (has_nickname flags));
          flat_matrix = emplace_back flat_matrix (float_of_bool name_has_multiple_firsts);
          flat_matrix = emplace_back flat_matrix (float_of_bool name_has_middle);
          flat_matrix = emplace_back flat_matrix (float_of_bool name_has_multiple_middles);
          flat_matrix = emplace_back flat_matrix (float_of_bool name_has_multiple_lasts);
          flat_matrix = emplace_back flat_matrix (float_of_int (support_count tmpl));
          flat_matrix = emplace_back flat_matrix (coverage_pct tmpl);
          flat_matrix = emplace_back flat_matrix (float_of_bool (in_mined_rules tmpl));
          flat_matrix = emplace_back flat_matrix (max_rule_confidence tmpl);
          flat_matrix = emplace_back flat_matrix (avg_rule_confidence tmpl);
          flat_matrix = emplace_back flat_matrix (float_of_bool (uses_middle_name tmpl));
          flat_matrix = emplace_back flat_matrix (float_of_bool (uses_multiple_firsts tmpl));
          flat_matrix = emplace_back flat_matrix (float_of_bool (uses_multiple_middles tmpl));
          flat_matrix = emplace_back flat_matrix (float_of_bool (uses_multiple_lasts tmpl));
          flat_matrix = emplace_back flat_matrix (float_of_int firm_support_count);
          flat_matrix = emplace_back flat_matrix firm_coverage_pct;
          flat_matrix = emplace_back flat_matrix (float_of_bool is_top);
          flat_matrix = emplace_back flat_matrix (float_of_bool clash);
          flat_matrix = emplace_back flat_matrix (float_of_int (num_templates stats));
          flat_matrix = emplace_back flat_matrix (float_of_int (num_investors stats));
          flat_matrix = emplace_back flat_matrix (diversity_ratio stats);
          flat_matrix = emplace_back flat_matrix (float_of_bool (is_single_template stats))
      in flat_matrix)"

definition build_feature_rows ::
  "(int \<Rightarrow> real) \<Rightarrow> NameDecomposer \<Rightarrow> Flags \<Rightarrow> string \<Rightarrow> CandidateTemplate list \<Rightarrow>
   (string \<rightharpoonup> FirmStats) \<Rightarrow> (string \<rightharpoonup> (int \<rightharpoonup> FirmTemplateUsage)) \<Rightarrow> real list" where
  "build_feature_rows float_of_int investor_name flags firm_name templates firm_stats
       firm_template_usage_map =
     (let name_has_middle = has_middle_name investor_name;
          name_has_multiple_firsts = has_multiple_first_names investor_name;
          name_has_multiple_middles = has_multiple_middle_names investor_name;
          name_has_multiple_lasts = has_multiple_last_names investor_name;
          stats = (case firm_stats firm_name of Some st \<Rightarrow> st | None \<Rightarrow> dummy_stats);
          firm_template_usage =
            (case firm_template_usage_map firm_name of Some m \<Rightarrow> m | None \<Rightarrow> Map.empty)
      in foldl (append_feature_row float_of_int name_has_middle name_has_multiple_firsts
                  name_has_multiple_middles name_has_multiple_lasts flags stats
                  firm_template_usage)
           [] templates)"

subsection \<open>The row layout in the words of the specification\<close>

text \<open>
  \<open>spec_feature_row\<close> is written from section 4.6 of the specification, not from the
  code: the 27 features in their fixed order, booleans as 0 or 1, zeros where the firm has
  no statistics or no usage entry for the template, and the clash feature as the
  disjunction over the four pairs.
\<close>

definition spec_feature_row ::
  "(int \<Rightarrow> real) \<Rightarrow> NameDecomposer \<Rightarrow> Flags \<Rightarrow> FirmStats option \<Rightarrow>
   FirmTemplateUsage option \<Rightarrow> CandidateTemplate \<Rightarrow> real list" where
  "spec_feature_row float_of_int name flags stats usage t =
     [ \<comment> \<open>in_firm_templates\<close> float_of_bool (usage \<noteq> None),
       \<comment> \<open>firm_is_shared_infra\<close> (case stats of None \<Rightarrow> 0 | Some s \<Rightarrow> float_of_bool (is_shared_infra s)),
       \<comment> \<open>firm_is_multi_domain\<close> (case stats of None \<Rightarrow> 0 | Some s \<Rightarrow> float_of_bool (firm_is_multi_domain s)),
       \<comment> \<open>has_german_char\<close> float_of_bool (has_german_char flags),
       \<comment> \<open>has_nfkd_normalized\<close> float_of_bool (has_nfkd_normalized flags),
       \<comment> \<open>has_nickname\<close> float_of_bool (has_nickname flags),
       \<comment> \<open>name_has_multiple_firsts\<close> float_of_bool (length (first_names name) > 1),
       \<comment> \<open>name_has_middle\<close> float_of_bool (middle_names name \<noteq> []),
       \<comment> \<open>name_has_multiple_middles\<close> float_of_bool (length (middle_names name) > 1),
       \<comment> \<open>name_has_multiple_lasts\<close> float_of_bool (length (last_names name) > 1),
       \<comment> \<open>template_support_count\<close> float_of_int (support_count t),
       \<comment> \<open>template_coverage_pct\<close> coverage_pct t,
       \<comment> \<open>template_in_mined_rules\<close> float_of_bool (in_mined_rules t),
       \<comment> \<open>template_max_rule_confidence\<close> max_rule_confidence t,
       \<comment> \<open>template_avg_rule_confidence\<close> avg_rule_confidence t,
       \<comment> \<open>template_uses_middle_name\<close> float_of_bool (uses_middle_name t),
       \<comment> \<open>template_uses_multiple_firsts\<close> float_of_bool (uses_multiple_firsts t),
       \<comment> \<open>template_uses_multiple_middles\<close> float_of_bool (uses_multiple_middles t),
       \<comment> \<open>template_uses_multiple_lasts\<close> float_of_bool (uses_multiple_lasts t),
       \<comment> \<open>firm_support_count\<close> (case usage of None \<Rightarrow> 0 | Some u \<Rightarrow> float_of_int (usage_support_count u)),
       \<comment> \<open>firm_coverage_pct\<close> (case usage of None \<Rightarrow> 0 | Some u \<Rightarrow> usage_coverage_pct u),
       \<comment> \<open>firm_is_top_template\<close> (case usage of None \<Rightarrow> 0 | Some u \<Rightarrow> float_of_bool (is_top_template u)),
       \<comment> \<open>template_name_characteristic_clash\<close>
         float_of_bool
           (list_ex (\<lambda>(template_uses, name_has). template_uses \<and> name_has)
              [(uses_middle_name t, middle_names name \<noteq> []),
               (uses_multiple_firsts t, length (first_names name) > 1),
               (uses_multiple_middles t, length (middle_names name) > 1),
               (uses_multiple_lasts t, length (last_names name) > 1)]),
       \<comment> \<open>firm_num_templates\<close> (case stats of None \<Rightarrow> 0 | Some s \<Rightarrow> float_of_int (num_templates s)),
       \<comment> \<open>firm_num_investors\<close> (case stats of None \<Rightarrow> 0 | Some s \<Rightarrow> float_of_int (num_investors s)),
       \<comment> \<open>firm_diversity_ratio\<close> (case stats of None \<Rightarrow> 0 | Some s \<Rightarrow> diversity_ratio s),
       \<comment> \<open>firm_is_single_template\<close> (case stats of None \<Rightarrow> 0 | Some s \<Rightarrow> float_of_bool (is_single_template s)) ]"

definition usage_lookup ::
  "(string \<rightharpoonup> (int \<rightharpoonup> FirmTemplateUsage)) \<Rightarrow> string \<Rightarrow> int \<Rightarrow> FirmTemplateUsage option" where
  \<comment> \<open>the usage entry of a template within a firm, \<open>None\<close> when the firm or the entry is
      missing\<close>
  "usage_lookup m firm tid = (case m firm of None \<Rightarrow> None | Some um \<Rightarrow> um tid)"


section \<open>Errors\<close>

datatype error =
    InvalidArgument   \<comment> \<open>\<open>std::invalid_argument\<close>\<close>
  | RuntimeError      \<comment> \<open>\<open>std::runtime_error\<close>\<close>
  | OutOfBounds       \<comment> \<open>a vector read past its end (undefined behaviour in C++)\<close>
  | NullDereference   \<comment> \<open>a null pointer dereferenced (undefined behaviour in C++)\<close>

section \<open>\<open>std::partial_sort\<close>\<close>

text \<open>
  \<open>std::partial_sort\<close> belongs to the C++ standard library, not to the repository, so the
  predictors below take it as a parameter \<open>partial_sort cmp middle v\<close> (the range
  \<open>[first, last)\<close> is the whole vector \<open>v\<close>, \<open>middle\<close> the length of the sorted
  prefix). \<open>partial_sort_contract\<close> is what the C++ standard promises of it: the result
  is a rearrangement of the input, its first \<open>middle\<close> elements are in order with respect to
  \<open>comp\<close>, and no element behind them goes before one of them. The order of equivalent
  elements is left open by the standard.
\<close>

definition partial_sort_contract ::
  "('a \<Rightarrow> 'a \<Rightarrow> bool) \<Rightarrow> nat \<Rightarrow> 'a list \<Rightarrow> 'a list \<Rightarrow> bool" where
  "partial_sort_contract cmp middle v v' =
     (mset v' = mset v \<and>
      sorted_wrt (\<lambda>a b. \<not> cmp b a) (take middle v') \<and>
      list_all (\<lambda>a. list_all (\<lambda>b. \<not> cmp b a) (drop middle v')) (take middle v'))"

text \<open>
  The implementation of GCC's libstdc++ (\<open>bits/stl_heap.h\<close>, \<open>bits/stl_algo.h\<close>):
  \<open>__heap_select\<close> followed by \<open>__sort_heap\<close>, on a vector modelled as a list that is
  updated in place. It serves to run the predictors on concrete inputs.
\<close>

function std_push_heap :: "('a \<Rightarrow> 'a \<Rightarrow> bool) \<Rightarrow> 'a list \<Rightarrow> nat \<Rightarrow> nat \<Rightarrow> 'a \<Rightarrow> 'a list" where
  "std_push_heap cmp a holeIndex topIndex val =
     (let parent = (holeIndex - 1) div 2 in
      if holeIndex > topIndex \<and> cmp (a ! parent) val
      then std_push_heap cmp (a[holeIndex := a ! parent]) parent topIndex val
      else a[holeIndex := val])"
  by pat_completeness auto
termination
  by (relation "measure (\<lambda>(cmp, a, holeIndex, topIndex, val). holeIndex)") auto

function std_adjust_heap_loop ::
  "('a \<Rightarrow> 'a \<Rightarrow> bool) \<Rightarrow> 'a list \<Rightarrow> nat \<Rightarrow> nat \<Rightarrow> nat \<Rightarrow> 'a list \<times> nat \<times> nat" where
  \<comment> \<open>the \<open>while\<close> loop of \<open>__adjust_heap\<close>; the result is the array, \<open>holeIndex\<close> and
      \<open>secondChild\<close>\<close>
  "std_adjust_heap_loop cmp a holeIndex secondChild len =
     (if secondChild < (len - 1) div 2
      then
        let secondChild = 2 * (secondChild + 1);
            secondChild =
              (if cmp (a ! secondChild) (a ! (secondChild - 1)) then secondChild - 1
               else secondChild)
        in std_adjust_heap_loop cmp (a[holeIndex := a ! secondChild]) secondChild secondChild len
      else (a, holeIndex, secondChild))"
  by pat_completeness auto
termination
  by (relation "measure (\<lambda>(cmp, a, holeIndex, secondChild, len). len - secondChild)") auto

definition std_adjust_heap :: "('a \<Rightarrow> 'a \<Rightarrow> bool) \<Rightarrow> 'a list \<Rightarrow> nat \<Rightarrow> nat \<Rightarrow> 'a \<Rightarrow> 'a list" where
  \<comment> \<open>\<open>len\<close> is a signed distance in C++: with \<open>len = 0\<close> the quotient \<open>(len - 2) / 2\<close>
      is \<open>-1\<close> and the second test fails, hence the guard \<open>2 \<le> len\<close>.\<close>
  "std_adjust_heap cmp a holeIndex len val =
     (let topIndex = holeIndex;
          (a, holeIndex, secondChild) = std_adjust_heap_loop cmp a holeIndex holeIndex len
      in if even len \<and> 2 \<le> len \<and> secondChild = (len - 2) div 2
         then
           let secondChild = 2 * (secondChild + 1)
           in std_push_heap cmp (a[holeIndex := a ! (secondChild - 1)]) (secondChild - 1)
                topIndex val
         else std_push_heap cmp a holeIndex topIndex val)"

definition std_pop_heap :: "('a \<Rightarrow> 'a \<Rightarrow> bool) \<Rightarrow> 'a list \<Rightarrow> nat \<Rightarrow> nat \<Rightarrow> 'a list" where
  \<comment> \<open>\<open>__pop_heap(first, first + len, first + result, comp)\<close>\<close>
  "std_pop_heap cmp a len result =
     (let val = a ! result;
          a = a[result := a ! 0]
      in std_adjust_heap cmp a 0 len val)"

fun std_make_heap_loop :: "('a \<Rightarrow> 'a \<Rightarrow> bool) \<Rightarrow> 'a list \<Rightarrow> nat \<Rightarrow> nat \<Rightarrow> 'a list" where
  \<comment> \<open>the \<open>while (true)\<close> loop of \<open>__make_heap\<close>, counting \<open>parent\<close> down to 0\<close>
  "std_make_heap_loop cmp a len 0 = std_adjust_heap cmp a 0 len (a ! 0)"
| "std_make_heap_loop cmp a len (Suc parent) =
     std_make_heap_loop cmp (std_adjust_heap cmp a (Suc parent) len (a ! Suc parent)) len parent"

definition std_make_heap :: "('a \<Rightarrow> 'a \<Rightarrow> bool) \<Rightarrow> 'a list \<Rightarrow> nat \<Rightarrow> 'a list" where
  "std_make_heap cmp a len =
     (if len < 2 then a else std_make_heap_loop cmp a len ((len - 2) div 2))"

fun std_sort_heap :: "('a \<Rightarrow> 'a \<Rightarrow> bool) \<Rightarrow> 'a list \<Rightarrow> nat \<Rightarrow> 'a list" where
  \<comment> \<open>\<open>while (last - first > 1) { --last; __pop_heap(first, last, last, comp); }\<close>\<close>
  "std_sort_heap cmp a 0 = a"
| "std_sort_heap cmp a (Suc n) =
     (if Suc n > 1 then std_sort_heap cmp (std_pop_heap cmp a n n) n else a)"

definition std_heap_select :: "('a \<Rightarrow> 'a \<Rightarrow> bool) \<Rightarrow> 'a list \<Rightarrow> nat \<Rightarrow> 'a list" where
  "std_heap_select cmp a middle =
     foldl (\<lambda>a i. if cmp (a ! i) (a ! 0) then std_pop_heap cmp a middle i else a)
       (std_make_heap cmp a middle) [middle..<length a]"

definition std_partial_sort :: "('a \<Rightarrow> 'a \<Rightarrow> bool) \<Rightarrow> nat \<Rightarrow> 'a list \<Rightarrow> 'a list" where
  "std_partial_sort cmp middle a = std_sort_heap cmp (std_heap_select cmp a middle) middle"


section \<open>Template predictors (light\_gbm\_template\_predictor.cpp, catboost\_template\_predictor.cpp)\<close>

text \<open>
  The fields of \<open>TemplatePrediction\<close> carry the prefix \<open>pred_\<close>. \<open>metadata\<close> is a
  pointer into the (immutable) template vector in C++; the model stores the template it
  points to. Scores are \<open>double\<close>s, modelled as reals (no NaN).
\<close>

record TemplatePrediction =
  pred_index :: nat
  pred_score :: real
  pred_template_id :: int
  pred_metadata :: CandidateTemplate

definition vec_resize :: "nat \<Rightarrow> real list \<Rightarrow> real list" where
  \<comment> \<open>\<open>std::vector<double>::resize\<close>: cut, or fill with zeros\<close>
  "vec_resize n v = take n v @ replicate (n - length v) 0"

definition predict_scores ::
  "(real list \<Rightarrow> nat \<Rightarrow> int \<times> nat \<times> real list) \<Rightarrow> real list \<Rightarrow> error + real list" where
  \<comment> \<open>\<open>booster flat num_rows\<close> stands for \<open>LGBM_BoosterPredictForMat\<close> on the loaded model:
      it gives the error code, \<open>out_len\<close> and the contents of the \<open>predictions\<close> buffer
      after the call.\<close>
  "predict_scores booster flat_matrix =
     (if flat_matrix = [] then Inr []
      else
        let num_rows = length flat_matrix div FEATURES_PER_ROW;
            (err, out_len, predictions) = booster flat_matrix num_rows
        in if err \<noteq> 0 then Inl RuntimeError
           else if out_len \<noteq> num_rows then Inr (vec_resize out_len predictions)
           else Inr predictions)"

definition score_greater :: "TemplatePrediction \<Rightarrow> TemplatePrediction \<Rightarrow> bool" where
  \<comment> \<open>the comparison handed to \<open>std::partial_sort\<close>: \<open>a.score > b.score\<close>\<close>
  "score_greater a b = (pred_score a > pred_score b)"

definition build_results :: "real list \<Rightarrow> CandidateTemplate list \<Rightarrow> error + TemplatePrediction list" where
  \<comment> \<open>the loop \<open>for (i = 0; i < scores.size(); ++i)\<close>; \<open>templates[i]\<close> past the end of
      \<open>templates\<close> is undefined behaviour in C++ and an explicit failure here\<close>
  "build_results scores templates =
     (if length scores > length templates then Inl OutOfBounds
      else Inr (map (\<lambda>i. \<lparr>pred_index = i, pred_score = scores ! i,
                            pred_template_id = template_id (templates ! i),
                            pred_metadata = templates ! i\<rparr>)
                  [0..<length scores]))"

definition select_top ::
  "(('p \<Rightarrow> 'p \<Rightarrow> bool) \<Rightarrow> nat \<Rightarrow> 'p list \<Rightarrow> 'p list) \<Rightarrow> ('p \<Rightarrow> 'p \<Rightarrow> bool) \<Rightarrow> nat \<Rightarrow>
   'p list \<Rightarrow> 'p list" where
  \<comment> \<open>the tail shared by both predictors: \<open>partial_sort\<close> up to \<open>min(top_k, size)\<close>, then
      \<open>resize(top_k)\<close> when the vector is longer\<close>
  "select_top partial_sort cmp top_k results =
     (let sort_size = min top_k (length results);
          results = partial_sort cmp sort_size results
      in if length results > top_k then take top_k results else results)"

definition predict_top_templates ::
  "((TemplatePrediction \<Rightarrow> TemplatePrediction \<Rightarrow> bool) \<Rightarrow> nat \<Rightarrow> TemplatePrediction list \<Rightarrow>
      TemplatePrediction list) \<Rightarrow>
   (real list \<Rightarrow> nat \<Rightarrow> int \<times> nat \<times> real list) \<Rightarrow> real list \<Rightarrow> CandidateTemplate list \<Rightarrow> nat \<Rightarrow>
   error + TemplatePrediction list" where
  \<comment> \<open>\<open>LightGBMTemplatePredictor::predict_top_templates\<close>\<close>
  "predict_top_templates partial_sort booster flat_matrix templates top_k =
     (if flat_matrix = [] \<or> templates = [] then Inr []
      else if length flat_matrix \<noteq> length templates * FEATURES_PER_ROW then Inl InvalidArgument
      else
        case predict_scores booster flat_matrix of
          Inl e \<Rightarrow> Inl e
        | Inr scores \<Rightarrow>
            (case build_results scores templates of
               Inl e \<Rightarrow> Inl e
             | Inr results \<Rightarrow> Inr (select_top partial_sort score_greater top_k results)))"

definition catboost_predict_top_templates ::
  "((TemplatePrediction \<Rightarrow> TemplatePrediction \<Rightarrow> bool) \<Rightarrow> nat \<Rightarrow> TemplatePrediction list \<Rightarrow>
      TemplatePrediction list) \<Rightarrow>
   (real list list \<Rightarrow> real list option) \<Rightarrow> real list \<Rightarrow> CandidateTemplate list \<Rightarrow> nat \<Rightarrow>
   error + TemplatePrediction list" where
  \<comment> \<open>\<open>CatBoostTemplatePredictor::predict_top_templates\<close>; \<open>calc rows\<close> stands for
      \<open>CalcModelPredictionFlat\<close> on the loaded model (\<open>None\<close>: the call failed, otherwise
      what it wrote to the output buffer of \<open>num_rows\<close> doubles).\<close>
  "catboost_predict_top_templates partial_sort calc flat_matrix templates top_k =
     (if length flat_matrix \<noteq> length templates * FEATURES_PER_ROW then Inl InvalidArgument
      else
        let num_rows = length flat_matrix div FEATURES_PER_ROW;
            float_ptrs = map (\<lambda>i. take FEATURES_PER_ROW (drop (i * FEATURES_PER_ROW) flat_matrix))
                           [0..<num_rows]
        in case calc float_ptrs of
             None \<Rightarrow> Inl RuntimeError
           | Some written \<Rightarrow>
               (case build_results (vec_resize num_rows written) templates of
                  Inl e \<Rightarrow> Inl e
                | Inr results \<Rightarrow> Inr (select_top partial_sort score_greater top_k results)))"

section \<open>Local-part resolver (resolve\_email\_local\_part.cpp)\<close>

definition get_name_group :: "NameDecomposer \<Rightarrow> Group \<Rightarrow> error + string list" where
  "get_name_group nd g =
     (case g of
        First \<Rightarrow> Inr (first_names nd)
      | Middle \<Rightarrow> Inr (middle_names nd)
      | Last \<Rightarrow> Inr (last_names nd)
      | Unknown \<Rightarrow> Inl InvalidArgument)"

fun resolve_tokens :: "NameDecomposer \<Rightarrow> TemplateToken list \<Rightarrow> string \<Rightarrow> error + string option" where
  \<comment> \<open>the loop over \<open>token_seq\<close>; the third argument is the stream \<open>oss\<close> so far;
      \<open>Inr None\<close> is \<open>std::nullopt\<close>\<close>
  "resolve_tokens name [] oss = Inr (Some oss)"
| "resolve_tokens name (token # rest) oss =
     (case separator token of
        Some sep \<Rightarrow> resolve_tokens name rest (oss @ sep)
      | None \<Rightarrow>
          (case get_name_group name (group token) of
             Inl e \<Rightarrow> Inl e
           | Inr group_vec \<Rightarrow>
               if index token \<ge> length group_vec then Inr None
               else
                 let raw = group_vec ! index token in
                 if use_initial token
                 then (if raw = [] then Inr None
                       else resolve_tokens name rest (oss @ to_lower [tolower_c (hd raw)]))
                 else resolve_tokens name rest (oss @ to_lower raw)))"

definition resolve_email_local_part :: "NameDecomposer \<Rightarrow> TemplateToken list \<Rightarrow> error + string option" where
  "resolve_email_local_part name tokens = resolve_tokens name tokens []"

section \<open>Domain resolver (domain\_resolver.cpp)\<close>

text \<open>
  \<open>firm_to_domain_\<close> is an \<open>unordered_map\<close> that is both looked up and iterated; it is
  modelled as the list of its entries in iteration order, looked up with \<open>map_of\<close>.
  \<open>firm_cache_\<close> is only looked up and written: a map. \<open>similarity query firm\<close> stands
  for rapidfuzz's \<open>CachedRatio(query).similarity(firm)\<close>.
\<close>

definition normalize_firm_name :: "string \<Rightarrow> string" where
  "normalize_firm_name firm_name = map tolower_c firm_name"

fun best_match_loop ::
  "(string \<Rightarrow> real) \<Rightarrow> (string \<times> string) list \<Rightarrow> real \<times> string option \<times> string option \<Rightarrow>
   real \<times> string option \<times> string option" where
  \<comment> \<open>the \<open>for\<close> loop of \<open>findBestFirmMatch\<close> on \<open>(best_score, best_firm, best_domain)\<close>;
      \<open>None\<close> is \<open>nullptr\<close>\<close>
  "best_match_loop scorer [] best = best"
| "best_match_loop scorer ((firm, domain) # entries) (best_score, best_firm, best_domain) =
     (let score = scorer firm in
      if score \<ge> best_score
      then best_match_loop scorer entries (score, Some firm, Some domain)
      else best_match_loop scorer entries (best_score, best_firm, best_domain))"

definition findBestFirmMatch ::
  "(string \<Rightarrow> string \<Rightarrow> real) \<Rightarrow> string \<Rightarrow> (string \<times> string) list \<Rightarrow> error + (string \<times> CacheEntry)" where
  "findBestFirmMatch similarity query firm_to_domain =
     (case best_match_loop (similarity query) firm_to_domain (0, None, None) of
        (best_score, Some best_firm, Some best_domain) \<Rightarrow>
          Inr (best_domain, \<lparr>canonical_firm = best_firm, match_score = best_score\<rparr>)
      | _ \<Rightarrow> Inl NullDereference)"

definition double_to_int :: "real \<Rightarrow> int" where
  \<comment> \<open>the conversion of \<open>match_score\<close> to the \<open>int\<close> of the result tuple: towards zero\<close>
  "double_to_int x = (if x \<ge> 0 then \<lfloor>x\<rfloor> else \<lceil>x\<rceil>)"

record DomainResolver =
  firm_to_domain :: "(string \<times> string) list"
  firm_cache :: "string \<rightharpoonup> (string \<times> CacheEntry)"

definition resolve_domain ::
  "(string \<Rightarrow> string \<Rightarrow> real) \<Rightarrow> DomainResolver \<Rightarrow> string \<Rightarrow>
   (error + (string \<times> string \<times> int)) \<times> DomainResolver" where
  \<comment> \<open>the result and the resolver afterwards (\<open>firm_cache_\<close> is \<open>mutable\<close>)\<close>
  "resolve_domain similarity r raw_firm_name =
     (let normalized_name = normalize_firm_name raw_firm_name in
      case map_of (firm_to_domain r) normalized_name of
        Some domain \<Rightarrow> (Inr (domain, normalized_name, 100), r)
      | None \<Rightarrow>
          (case firm_cache r normalized_name of
             Some (domain, entry) \<Rightarrow>
               (Inr (domain, canonical_firm entry, double_to_int (match_score entry)), r)
           | None \<Rightarrow>
               (case findBestFirmMatch similarity normalized_name (firm_to_domain r) of
                  Inl e \<Rightarrow> (Inl e, r)
                | Inr best_match \<Rightarrow>
                    (Inr (fst best_match, canonical_firm (snd best_match),
                          double_to_int (match_score (snd best_match))),
                     r\<lparr>firm_cache := (firm_cache r)(normalized_name \<mapsto> best_match)\<rparr>))))"


section \<open>Prediction engine (email\_prediction\_engine.cpp)\<close>

text \<open>
  The results of the two optional network hooks (Hunter verification, RocketReach
  enrichment); their fields carry the prefixes \<open>v_\<close> and \<open>e_\<close>.
\<close>

record VerificationResult =
  v_email :: string
  v_status :: string
  v_score :: int
  v_is_deliverable :: bool
  v_raw_json :: string

record EnrichmentResult =
  e_email :: string
  e_name :: string
  e_job_title :: string
  e_linkedin_url :: string
  e_location :: string
  e_phone :: string
  e_raw_json :: string

record EmailPredictionResult =
  email :: string
  score :: real
  result_template_id :: int
  verification_result :: "VerificationResult option"
  enrichment_result :: "EnrichmentResult option"

text \<open>
  The engine: the two predictors (any type with \<open>predict_top_templates\<close>, here the function
  itself), the loaded metadata, the optional resolver and the optional hooks (a hook is the
  function from its arguments to what the remote service answers).
\<close>

record Engine =
  std_predictor :: "real list \<Rightarrow> CandidateTemplate list \<Rightarrow> nat \<Rightarrow> error + TemplatePrediction list"
  complex_predictor :: "real list \<Rightarrow> CandidateTemplate list \<Rightarrow> nat \<Rightarrow> error + TemplatePrediction list"
  std_templates :: "CandidateTemplate list"
  complex_templates :: "CandidateTemplate list"
  engine_firm_stats :: "string \<rightharpoonup> FirmStats"
  engine_firm_usage_map :: "string \<rightharpoonup> (int \<rightharpoonup> FirmTemplateUsage)"
  domain_resolver :: "DomainResolver option"
  verification_pipeline :: "(string \<Rightarrow> VerificationResult option) option"
  enrichment_pipeline :: "(string \<Rightarrow> string \<Rightarrow> string \<Rightarrow> EnrichmentResult option) option"

definition resolve_domain_string ::
  "(string \<Rightarrow> string \<Rightarrow> real) \<Rightarrow> Engine \<Rightarrow> string \<Rightarrow> string option \<Rightarrow> (error + string) \<times> Engine" where
  \<comment> \<open>the first step of \<open>predict\<close>: the caller's domain, else the resolver, else
      \<open>std::runtime_error\<close>; the engine comes back with the resolver's cache updated\<close>
  "resolve_domain_string similarity eng firm_name domain_opt =
     (case domain_opt of
        Some d \<Rightarrow> (Inr d, eng)
      | None \<Rightarrow>
          (case domain_resolver eng of
             Some r \<Rightarrow>
               (case resolve_domain similarity r firm_name of
                  (Inl e, r') \<Rightarrow> (Inl e, eng\<lparr>domain_resolver := Some r'\<rparr>)
                | (Inr (resolved_domain, matched_firm, confidence), r') \<Rightarrow>
                    (Inr resolved_domain, eng\<lparr>domain_resolver := Some r'\<rparr>))
           | None \<Rightarrow> (Inl RuntimeError, eng)))"

fun format_results ::
  "NameDecomposer \<Rightarrow> string \<Rightarrow> TemplatePrediction list \<Rightarrow> EmailPredictionResult list \<Rightarrow>
   error + EmailPredictionResult list" where
  \<comment> \<open>the loop \<open>for (const auto &pred : top_predictions)\<close>; the last argument is
      \<open>results\<close> so far\<close>
  "format_results name_struct domain_string [] results = Inr results"
| "format_results name_struct domain_string (pred # preds) results =
     (case resolve_email_local_part name_struct (token_seq (pred_metadata pred)) of
        Inl e \<Rightarrow> Inl e
      | Inr None \<Rightarrow> format_results name_struct domain_string preds results
      | Inr (Some local_part) \<Rightarrow>
          format_results name_struct domain_string preds
            (results @
             [\<lparr>email = local_part @ ''@'' @ domain_string, score = pred_score pred,
               result_template_id = pred_template_id pred, verification_result = None,
               enrichment_result = None\<rparr>]))"

fun verify_loop ::
  "(string \<Rightarrow> VerificationResult option) \<Rightarrow> EmailPredictionResult list \<Rightarrow>
   EmailPredictionResult list \<Rightarrow> nat option \<Rightarrow> EmailPredictionResult list \<times> nat option" where
  \<comment> \<open>the verification loop: \<open>visited\<close> are the results already verified, the last argument
      is \<open>best_result_ptr\<close> as a position in \<open>results\<close> (\<open>None\<close>: \<open>nullptr\<close>)\<close>
  "verify_loop verifier [] visited best = (visited, best)"
| "verify_loop verifier (r # rs) visited best =
     (let r' = r\<lparr>verification_result := verifier (email r)\<rparr> in
      case verification_result r' of
        None \<Rightarrow> verify_loop verifier rs (visited @ [r']) best
      | Some v \<Rightarrow>
          let better =
                (case best of
                   None \<Rightarrow> True
                 | Some b \<Rightarrow>
                     (case verification_result (visited ! b) of
                        Some bv \<Rightarrow> v_score v > v_score bv
                      | None \<Rightarrow> False))
          in verify_loop verifier rs (visited @ [r'])
               (if better then Some (length visited) else best))"

definition post_hooks ::
  "Engine \<Rightarrow> string \<Rightarrow> string \<Rightarrow> EmailPredictionResult list \<Rightarrow> EmailPredictionResult list" where
  \<comment> \<open>verification of every result, then enrichment of the best-scoring one\<close>
  "post_hooks eng investor_name firm_name results =
     (let (results, best_result_ptr) =
            (case verification_pipeline eng of
               Some verifier \<Rightarrow> verify_loop verifier results [] None
             | None \<Rightarrow> (results, None))
      in case (enrichment_pipeline eng, best_result_ptr) of
           (Some enrich, Some b) \<Rightarrow>
             (case enrich investor_name firm_name (email (results ! b)) of
                Some enriched \<Rightarrow> results[b := (results ! b)\<lparr>enrichment_result := Some enriched\<rparr>]
              | None \<Rightarrow> results)
         | _ \<Rightarrow> results)"

definition predict ::
  "(string \<Rightarrow> string option) \<Rightarrow> (int \<Rightarrow> real) \<Rightarrow> (string \<Rightarrow> string \<Rightarrow> real) \<Rightarrow> Engine \<Rightarrow> string \<Rightarrow>
   string \<Rightarrow> nat \<Rightarrow> string option \<Rightarrow> (error + EmailPredictionResult list) \<times> Engine" where
  \<comment> \<open>\<open>EmailPredictionEngine::predict\<close>; \<open>icu\<close>, \<open>float_of_int\<close> and \<open>similarity\<close> are the
      library parameters introduced above\<close>
  "predict icu float_of_int similarity eng investor_name firm_name top_k domain_opt =
     (case resolve_domain_string similarity eng firm_name domain_opt of
        (Inl e, eng') \<Rightarrow> (Inl e, eng')
      | (Inr domain_string, eng') \<Rightarrow>
          let name_struct = NameDecomposer_ctor icu investor_name;
              flags = extract_flags icu investor_name;
              complex_name =
                (has_middle_name name_struct \<or> has_multiple_first_names name_struct \<or>
                 has_multiple_last_names name_struct \<or> has_german_char flags \<or>
                 has_nfkd_normalized flags);
              feature_rows =
                build_feature_rows float_of_int name_struct flags firm_name
                  (if complex_name then complex_templates eng else std_templates eng)
                  (engine_firm_stats eng) (engine_firm_usage_map eng);
              top_predictions =
                (if complex_name
                 then complex_predictor eng feature_rows (complex_templates eng) top_k
                 else std_predictor eng feature_rows (std_templates eng) top_k)
          in case top_predictions of
               Inl e \<Rightarrow> (Inl e, eng')
             | Inr preds \<Rightarrow>
                 (case format_results name_struct domain_string preds [] of
                    Inl e \<Rightarrow> (Inl e, eng')
                  | Inr results \<Rightarrow>
                      (Inr (post_hooks eng investor_name firm_name results), eng')))"

definition top_predictions_of ::
  "(string \<Rightarrow> string option) \<Rightarrow> (int \<Rightarrow> real) \<Rightarrow> Engine \<Rightarrow> string \<Rightarrow> string \<Rightarrow> nat \<Rightarrow>
   error + TemplatePrediction list" where
  \<comment> \<open>the value that \<open>predict\<close> binds to its local variable \<open>top_predictions\<close>, named so
      that theorems can speak of it\<close>
  "top_predictions_of icu float_of_int eng investor_name firm_name top_k =
     (let name_struct = NameDecomposer_ctor icu investor_name;
          flags = extract_flags icu investor_name;
          complex_name =
            (has_middle_name name_struct \<or> has_multiple_first_names name_struct \<or>
             has_multiple_last_names name_struct \<or> has_german_char flags \<or>
             has_nfkd_normalized flags);
          feature_rows =
            build_feature_rows float_of_int name_struct flags firm_name
              (if complex_name then complex_templates eng else std_templates eng)
              (engine_firm_stats eng) (engine_firm_usage_map eng)
      in if complex_name
         then complex_predictor eng feature_rows (complex_templates eng) top_k
         else std_predictor eng feature_rows (std_templates eng) top_k)"

subsection \<open>The pipeline for a chosen template class, in the words of the specification\<close>

text \<open>
  \<open>spec_pipeline\<close> follows steps 1, 2 and 4 to 8 of section 4.10 of the specification for
  one predictor and one template set handed to it; step 3 (which class) is left to the
  caller. It is what \<open>predict\<close> is compared with.
\<close>

definition spec_pipeline ::
  "(real list \<Rightarrow> CandidateTemplate list \<Rightarrow> nat \<Rightarrow> error + TemplatePrediction list) \<Rightarrow>
   CandidateTemplate list \<Rightarrow>
   (string \<Rightarrow> string option) \<Rightarrow> (int \<Rightarrow> real) \<Rightarrow> (string \<Rightarrow> string \<Rightarrow> real) \<Rightarrow> Engine \<Rightarrow> string \<Rightarrow>
   string \<Rightarrow> nat \<Rightarrow> string option \<Rightarrow> (error + EmailPredictionResult list) \<times> Engine" where
  "spec_pipeline predictor templates icu float_of_int similarity eng investor_name firm_name
       top_k domain_opt =
     (case resolve_domain_string similarity eng firm_name domain_opt of
        (Inl e, eng') \<Rightarrow> (Inl e, eng')
      | (Inr domain_string, eng') \<Rightarrow>
          let name_struct = NameDecomposer_ctor icu investor_name;
              flags = extract_flags icu investor_name;
              matrix =
                build_feature_rows float_of_int name_struct flags firm_name templates
                  (engine_firm_stats eng) (engine_firm_usage_map eng)
          in case predictor matrix templates top_k of
               Inl e \<Rightarrow> (Inl e, eng')
             | Inr preds \<Rightarrow>
                 (case format_results name_struct domain_string preds [] of
                    Inl e \<Rightarrow> (Inl e, eng')
                  | Inr results \<Rightarrow>
                      (Inr (post_hooks eng investor_name firm_name results), eng')))"


subsection \<open>The name group of a token, in the words of the specification\<close>


section \<open>Concrete inputs\<close>

text \<open>
  Small inputs on which the theorems below are instantiated: the tokens that
  \<open>parse_token_sequence\<close> yields for \<open>first_original_0\<close>, \<open>middle_original_0\<close>,
  \<open>last_original_0\<close>, \<open>f_0\<close> and \<open>.\<close>, three candidate templates, and the metadata of
  one firm.
\<close>

definition name_token :: "Group \<Rightarrow> nat \<Rightarrow> TemplateToken" where
  "name_token g i =
     \<lparr>group = g, index = i, use_original = True, use_nfkd = False, use_translit = False,
      use_nickname = False, use_surname_particle = False, use_initial = False,
      separator = None\<rparr>"

definition initial_token :: "Group \<Rightarrow> nat \<Rightarrow> TemplateToken" where
  "initial_token g i =
     \<lparr>group = g, index = i, use_original = False, use_nfkd = False, use_translit = False,
      use_nickname = False, use_surname_particle = False, use_initial = True,
      separator = None\<rparr>"

definition separator_token :: "string \<Rightarrow> TemplateToken" where
  \<comment> \<open>a default-constructed token with only \<open>separator\<close> set\<close>
  "separator_token sep =
     \<lparr>group = Unknown, index = 0, use_original = False, use_nfkd = False, use_translit = False,
      use_nickname = False, use_surname_particle = False, use_initial = False,
      separator = Some sep\<rparr>"

definition template_first_dot_last :: CandidateTemplate where
  "template_first_dot_last =
     \<lparr>template_id = 7,
      token_seq = [name_token First 0, separator_token ''.'', name_token Last 0],
      support_count = 120, coverage_pct = 1 / 2, in_mined_rules = True,
      max_rule_confidence = 3 / 4, avg_rule_confidence = 1 / 4, uses_middle_name = False,
      uses_multiple_firsts = False, uses_multiple_middles = False,
      uses_multiple_lasts = False\<rparr>"

definition template_f_middle_last :: CandidateTemplate where
  "template_f_middle_last =
     \<lparr>template_id = 9,
      token_seq = [initial_token First 0, name_token Middle 0, name_token Last 0],
      support_count = 80, coverage_pct = 1 / 4, in_mined_rules = False,
      max_rule_confidence = 0, avg_rule_confidence = 0, uses_middle_name = True,
      uses_multiple_firsts = False, uses_multiple_middles = False,
      uses_multiple_lasts = False\<rparr>"

definition template_flast :: CandidateTemplate where
  "template_flast =
     \<lparr>template_id = 12,
      token_seq = [initial_token First 0, name_token Last 0],
      support_count = 40, coverage_pct = 1 / 8, in_mined_rules = False,
      max_rule_confidence = 0, avg_rule_confidence = 0, uses_middle_name = False,
      uses_multiple_firsts = False, uses_multiple_middles = False,
      uses_multiple_lasts = False\<rparr>"

definition template_last :: CandidateTemplate where
  "template_last =
     \<lparr>template_id = 15,
      token_seq = [name_token Last 0],
      support_count = 10, coverage_pct = 1 / 16, in_mined_rules = False,
      max_rule_confidence = 0, avg_rule_confidence = 0, uses_middle_name = False,
      uses_multiple_firsts = False, uses_multiple_middles = False,
      uses_multiple_lasts = False\<rparr>"

definition example_firm_stats :: "string \<rightharpoonup> FirmStats" where
  "example_firm_stats =
     [''cvc'' \<mapsto> \<lparr>num_templates = 3, num_investors = 12, diversity_ratio = 1 / 4,
                    is_single_template = False, is_shared_infra = False,
                    firm_is_multi_domain = True\<rparr>]"

definition example_usage_map :: "string \<rightharpoonup> (int \<rightharpoonup> FirmTemplateUsage)" where
  "example_usage_map =
     [''cvc'' \<mapsto> [7 \<mapsto> \<lparr>usage_support_count = 5, usage_coverage_pct = 1 / 2,
                            is_top_template = True\<rparr>]]"

definition example_similarity :: "string \<Rightarrow> string \<Rightarrow> real" where
  \<comment> \<open>a stand-in for the rapidfuzz ratio on concrete inputs: the number of positions at
      which the two strings agree\<close>
  "example_similarity query firm = real (length (filter (\<lambda>(a, b). a = b) (zip query firm)))"

definition example_resolver :: DomainResolver where
  "example_resolver =
     \<lparr>firm_to_domain = [(''cvc'', ''cvc.com''), (''ardian'', ''ardian.com'')],
      firm_cache = Map.empty\<rparr>"

definition example_booster :: "real list \<Rightarrow> nat \<Rightarrow> int \<times> nat \<times> real list" where
  \<comment> \<open>a stand-in for a loaded LightGBM model on concrete inputs: no error, one prediction
      per row, the score of a row being its feature \<open>template_support_count\<close>\<close>
  "example_booster flat num_rows =
     (0, num_rows, map (\<lambda>i. flat ! (i * FEATURES_PER_ROW + 10)) [0..<num_rows])"

definition tied_booster :: "real list \<Rightarrow> nat \<Rightarrow> int \<times> nat \<times> real list" where
  \<comment> \<open>a stand-in for a model that scores three rows 1, 0 and 1\<close>
  "tied_booster flat num_rows = (0, 3, [1, 0, 1])"

definition tied_booster4 :: "real list \<Rightarrow> nat \<Rightarrow> int \<times> nat \<times> real list" where
  \<comment> \<open>a stand-in for a model that scores four rows 1, 0, 1 and 2\<close>
  "tied_booster4 flat num_rows = (0, 4, [1, 0, 1, 2])"

definition example_engine :: Engine where
  \<comment> \<open>an engine with two LightGBM predictors (libstdc++'s \<open>partial_sort\<close>, the stand-in
      model), a resolver and no hooks\<close>
  "example_engine =
     \<lparr>std_predictor = predict_top_templates std_partial_sort example_booster,
      complex_predictor = predict_top_templates std_partial_sort example_booster,
      std_templates = [template_first_dot_last, template_flast],
      complex_templates = [template_f_middle_last],
      engine_firm_stats = example_firm_stats,
      engine_firm_usage_map = example_usage_map,
      domain_resolver = Some example_resolver,
      verification_pipeline = None,
      enrichment_pipeline = None\<rparr>"

definition boolean_features :: "nat list" where
  \<comment> \<open>the columns of a feature row that hold a boolean\<close>
  "boolean_features = [0, 1, 2, 3, 4, 5, 6, 7, 8, 9, 12, 15, 16, 17, 18, 21, 22, 26]"

section \<open>Properties of the name decomposer\<close>

lemma split_all_Nil [simp]: "split_all d [] = []"
  by (simp add: split_all.simps)

lemma split_all_tokens_nonempty: "t \<in> set (split_all d s) \<Longrightarrow> t \<noteq> []"
proof (induction d s rule: split_all.induct)
  case (1 d s)
  let ?s1 = "dropWhile (\<lambda>c. c = d) s"
  show ?case
  proof (cases "?s1 = []")
    case True
    then have "split_all d s = []" by (subst split_all.simps) simp
    with "1.prems" show ?thesis by simp
  next
    case False
    then have eq: "split_all d s =
        takeWhile (\<lambda>c. c \<noteq> d) ?s1 # split_all d (dropWhile (\<lambda>c. c \<noteq> d) ?s1)"
      by (subst split_all.simps) (simp add: Let_def)
    from False have "hd ?s1 \<noteq> d" using hd_dropWhile [of "\<lambda>c. c = d" s] by blast
    with False have "takeWhile (\<lambda>c. c \<noteq> d) ?s1 \<noteq> []"
      by (cases ?s1) auto
    with "1.prems" eq "1.IH" [OF refl False] show ?thesis by auto
  qed
qed

lemma process_remaining_last_nonempty:
  "ps \<noteq> [] \<Longrightarrow> snd (process_remaining ps m l) \<noteq> []"
  by (induction ps m l rule: process_remaining.induct) auto

lemma process_remaining_empty [simp]: "process_remaining [] m l = (m, l)"
  by simp


lemma concat_views_split: "concat (views_split d s) = filter (\<lambda>c. c \<noteq> d) s"
  by (induction s) (auto split: list.splits)

lemma views_split_nonempty_part:
  "(filter (\<lambda>part. part \<noteq> []) (views_split d s) = []) = (set s \<subseteq> {d})"
proof -
  have "(filter (\<lambda>part. part \<noteq> []) (views_split d s) = []) = (concat (views_split d s) = [])"
    by (auto simp: filter_empty_conv)
  also have "\<dots> = (set s \<subseteq> {d})"
    by (auto simp: concat_views_split filter_empty_conv)
  finally show ?thesis .
qed


text \<open>
  Claim C4, as the code has it. The stoplist is compared with whole tokens, and only the end
  of the whole string loses its punctuation. Written without the periods, the input
  \<open>Mr Dr John Smith Jr\<close> decomposes into first \<open>[john]\<close>, no middle name and last
  \<open>[smith]\<close>: the tokens \<open>mr\<close>, \<open>dr\<close> and \<open>jr\<close> are dropped from the front and
  the back. This holds for every ICU that leaves the ASCII text unchanged (or fails).
\<close>

theorem C4_honorifics_without_periods:
  assumes "icu ''mr dr john smith jr'' = None \<or>
           icu ''mr dr john smith jr'' = Some ''mr dr john smith jr''"
  shows "first_names (NameDecomposer_ctor icu ''Mr Dr John Smith Jr'') = [''john''] \<and>
         middle_names (NameDecomposer_ctor icu ''Mr Dr John Smith Jr'') = [] \<and>
         last_names (NameDecomposer_ctor icu ''Mr Dr John Smith Jr'') = [''smith'']"
proof -
  let ?raw = "''Mr Dr John Smith Jr''"
  have lowered: "replace_german_chars (to_lower (trim ?raw)) = ''mr dr john smith jr''"
    by code_simp
  have ascii: "strip_to_ascii ''mr dr john smith jr'' = ''mr dr john smith jr''"
    by code_simp
  have "nfkd_normalize icu ''mr dr john smith jr'' = ''mr dr john smith jr''"
    using assms ascii by (auto simp: nfkd_normalize_def)
  moreover have "nfkd_normalize icu_nfkd_ascii ''mr dr john smith jr'' = ''mr dr john smith jr''"
    using ascii by (simp add: nfkd_normalize_def icu_nfkd_ascii_def)
  ultimately have "nfkd_normalize icu (replace_german_chars (to_lower (trim ?raw)))
      = nfkd_normalize icu_nfkd_ascii (replace_german_chars (to_lower (trim ?raw)))"
    by (simp only: lowered)
  then have "normalize_full_name icu ?raw = normalize_full_name icu_nfkd_ascii ?raw"
    unfolding normalize_full_name_def Let_def by (simp only:)
  then have "NameDecomposer_ctor icu ?raw = NameDecomposer_ctor icu_nfkd_ascii ?raw"
    by (simp only: NameDecomposer_ctor_def)
  moreover have "first_names (NameDecomposer_ctor icu_nfkd_ascii ?raw) = [''john''] \<and>
         middle_names (NameDecomposer_ctor icu_nfkd_ascii ?raw) = [] \<and>
         last_names (NameDecomposer_ctor icu_nfkd_ascii ?raw) = [''smith'']"
    by code_simp
  ultimately show ?thesis by (simp only:)
qed

theorem C4_honorifics_without_periods_witness:
  "first_names (NameDecomposer_ctor icu_nfkd_ascii ''Mr Dr John Smith Jr'') = [''john''] \<and>
   middle_names (NameDecomposer_ctor icu_nfkd_ascii ''Mr Dr John Smith Jr'') = [] \<and>
   last_names (NameDecomposer_ctor icu_nfkd_ascii ''Mr Dr John Smith Jr'') = [''smith'']"
  using C4_honorifics_without_periods [of icu_nfkd_ascii]
  by (simp add: icu_nfkd_ascii_def)


text \<open>
  With the periods of the specification's example the tokens are \<open>mr.\<close> and \<open>dr.\<close>, which
  equal no stoplist entry: they stay, and the decomposition is not the one claim C4 states.
\<close>

theorem C4_counterexample:
  "first_names (NameDecomposer_ctor icu_nfkd_ascii ''Mr. Dr. John Smith Jr'') = [''mr.''] \<and>
   middle_names (NameDecomposer_ctor icu_nfkd_ascii ''Mr. Dr. John Smith Jr'') = [''dr.'', ''john''] \<and>
   last_names (NameDecomposer_ctor icu_nfkd_ascii ''Mr. Dr. John Smith Jr'') = [''smith''] \<and>
   \<not> (first_names (NameDecomposer_ctor icu_nfkd_ascii ''Mr. Dr. John Smith Jr'') = [''john''] \<and>
      middle_names (NameDecomposer_ctor icu_nfkd_ascii ''Mr. Dr. John Smith Jr'') = [] \<and>
      last_names (NameDecomposer_ctor icu_nfkd_ascii ''Mr. Dr. John Smith Jr'') = [''smith''])"
  by code_simp

text \<open>
  Claim C7, as the code has it. The three sequences of a decomposed name are all empty
  exactly when cleaning leaves no token (the input is empty, only whitespace, or only
  honorifics such as \<open>mr\<close>), or leaves a single token made of hyphens only. For every other
  input at least one of the three sequences is non-empty.
\<close>

theorem C7_all_components_empty_iff:
  "(first_names (NameDecomposer_ctor icu raw) = [] \<and>
    middle_names (NameDecomposer_ctor icu raw) = [] \<and>
    last_names (NameDecomposer_ctor icu raw) = [])
   = (split_all_strings (CHR '' '') (normalize_full_name icu raw) = [] \<or>
      (\<exists>p. split_all_strings (CHR '' '') (normalize_full_name icu raw) = [p] \<and>
           set p \<subseteq> {CHR ''-''}))"
proof -
  let ?cleaned = "normalize_full_name icu raw"
  let ?parts = "split_all_strings (CHR '' '') ?cleaned"
  show ?thesis
  proof (cases ?parts)
    case Nil
    then show ?thesis
      by (auto simp: NameDecomposer_ctor_def parse_name_def Let_def)
  next
    case (Cons p0 rest)
    then have ne: "?cleaned \<noteq> []" by (auto simp: split_all_strings_def)
    from Cons have p0: "p0 \<noteq> []"
      using split_all_tokens_nonempty [of p0 "CHR '' ''" ?cleaned]
      by (simp add: split_all_strings_def)
    show ?thesis
    proof (cases rest)
      case Nil
      have firsts: "(first_names (NameDecomposer_ctor icu raw) = []) = (set p0 \<subseteq> {CHR ''-''})"
      proof (cases "CHR ''-'' \<in> set p0")
        case True
        with \<open>?parts = p0 # rest\<close> ne show ?thesis
          using views_split_nonempty_part [of "CHR ''-''" p0]
          by (simp add: NameDecomposer_ctor_def parse_name_def Let_def split: prod.splits)
      next
        case False
        with p0 have "\<not> set p0 \<subseteq> {CHR ''-''}" by (cases p0) auto
        with False \<open>?parts = p0 # rest\<close> ne show ?thesis
          by (simp add: NameDecomposer_ctor_def parse_name_def Let_def split: prod.splits)
      qed
      have "middle_names (NameDecomposer_ctor icu raw) = [] \<and>
            last_names (NameDecomposer_ctor icu raw) = []"
        using Nil \<open>?parts = p0 # rest\<close> ne
        by (simp add: NameDecomposer_ctor_def parse_name_def Let_def)
      with firsts Nil \<open>?parts = p0 # rest\<close> show ?thesis by simp
    next
      case (Cons p1 rest')
      then have "snd (process_remaining rest [] []) \<noteq> []"
        by (intro process_remaining_last_nonempty) simp
      with \<open>?parts = p0 # rest\<close> Cons ne show ?thesis
        by (auto simp: NameDecomposer_ctor_def parse_name_def Let_def split: prod.splits)
    qed
  qed
qed


theorem C7_all_components_empty_iff_witness:
  "\<not> (first_names (NameDecomposer_ctor icu_nfkd_ascii ''John Smith'') = [] \<and>
      middle_names (NameDecomposer_ctor icu_nfkd_ascii ''John Smith'') = [] \<and>
      last_names (NameDecomposer_ctor icu_nfkd_ascii ''John Smith'') = [])"
proof -
  have "split_all_strings (CHR '' '') (normalize_full_name icu_nfkd_ascii ''John Smith'')
          = [''john'', ''smith'']"
    by code_simp
  then show ?thesis
    using C7_all_components_empty_iff [of icu_nfkd_ascii "''John Smith''"] by simp
qed

text \<open>
  The inputs \<open>mr\<close> and a single space are not empty, and all three sequences are.
\<close>

theorem C7_counterexample:
  "''mr'' \<noteq> [] \<and>
   first_names (NameDecomposer_ctor icu_nfkd_ascii ''mr'') = [] \<and>
   middle_names (NameDecomposer_ctor icu_nfkd_ascii ''mr'') = [] \<and>
   last_names (NameDecomposer_ctor icu_nfkd_ascii ''mr'') = [] \<and>
   '' '' \<noteq> [] \<and>
   first_names (NameDecomposer_ctor icu_nfkd_ascii '' '') = [] \<and>
   middle_names (NameDecomposer_ctor icu_nfkd_ascii '' '') = [] \<and>
   last_names (NameDecomposer_ctor icu_nfkd_ascii '' '') = []"
  by code_simp

section \<open>Properties of the feature-matrix builder\<close>

lemma length_append_feature_row:
  "length (append_feature_row fi a b c d fl st us flat t) = length flat + 27"
  by (simp add: append_feature_row_def emplace_back_def Let_def)

lemma append_feature_row_append:
  "append_feature_row fi a b c d fl st us flat t = flat @ append_feature_row fi a b c d fl st us [] t"
  by (simp add: append_feature_row_def emplace_back_def Let_def)

lemma foldl_append_feature_row:
  "foldl (append_feature_row fi a b c d fl st us) flat ts
     = flat @ concat (map (append_feature_row fi a b c d fl st us []) ts)"
proof (induction ts arbitrary: flat)
  case Nil
  show ?case by simp
next
  case (Cons t ts)
  let ?F = "append_feature_row fi a b c d fl st us"
  have "foldl ?F flat (t # ts) = foldl ?F (?F flat t) ts" by simp
  also have "\<dots> = ?F flat t @ concat (map (?F []) ts)" by (rule Cons.IH)
  also have "?F flat t = flat @ ?F [] t" by (rule append_feature_row_append)
  finally show ?case by simp
qed

lemma take_drop_concat_rows:
  assumes "\<forall>x \<in> set xs. length (f x) = k" and "i < length xs"
  shows "take k (drop (k * i) (concat (map f xs))) = f (xs ! i)"
  using assms
proof (induction xs arbitrary: i)
  case Nil
  then show ?case by simp
next
  case (Cons x xs)
  show ?case
  proof (cases i)
    case 0
    then show ?thesis using Cons.prems by simp
  next
    case (Suc j)
    then have "k * i = length (f x) + k * j" using Cons.prems by simp
    then show ?thesis using Cons Suc by (simp add: drop_append del: mult_Suc_right)
  qed
qed

lemma length_concat_rows:
  "\<forall>x \<in> set xs. length (f x) = k \<Longrightarrow> length (concat (map f xs)) = k * length xs"
  by (induction xs) auto

lemma append_feature_row_eq_spec:
  assumes "fi 0 = 0"
  shows "append_feature_row fi (has_middle_name nd) (has_multiple_first_names nd)
      (has_multiple_middle_names nd) (has_multiple_last_names nd) fl
      (case fs firm of Some st \<Rightarrow> st | None \<Rightarrow> dummy_stats)
      (case um firm of Some m \<Rightarrow> m | None \<Rightarrow> Map.empty) [] t
   = spec_feature_row fi nd fl (fs firm) (usage_lookup um firm (template_id t)) t"
proof -
  have names: "has_middle_name nd = (middle_names nd \<noteq> [])"
    "has_multiple_first_names nd = (length (first_names nd) > 1)"
    "has_multiple_middle_names nd = (length (middle_names nd) > 1)"
    "has_multiple_last_names nd = (length (last_names nd) > 1)"
    by (simp_all add: has_middle_name_def has_multiple_first_names_def
        has_multiple_middle_names_def has_multiple_last_names_def)
  have row: "append_feature_row fi a b c d fl st us [] t =
     [float_of_bool (us (template_id t) \<noteq> None),
      float_of_bool (is_shared_infra st),
      float_of_bool (firm_is_multi_domain st),
      float_of_bool (has_german_char fl),
      float_of_bool (has_nfkd_normalized fl),
      float_of_bool (has_nickname fl),
      float_of_bool b, float_of_bool a, float_of_bool c, float_of_bool d,
      fi (support_count t), coverage_pct t, float_of_bool (in_mined_rules t),
      max_rule_confidence t, avg_rule_confidence t,
      float_of_bool (uses_middle_name t), float_of_bool (uses_multiple_firsts t),
      float_of_bool (uses_multiple_middles t), float_of_bool (uses_multiple_lasts t),
      fi (case us (template_id t) of None \<Rightarrow> 0 | Some u \<Rightarrow> usage_support_count u),
      (case us (template_id t) of None \<Rightarrow> 0 | Some u \<Rightarrow> usage_coverage_pct u),
      float_of_bool (case us (template_id t) of None \<Rightarrow> False | Some u \<Rightarrow> is_top_template u),
      float_of_bool ((uses_middle_name t \<and> a) \<or> (uses_multiple_firsts t \<and> b) \<or>
                     (uses_multiple_middles t \<and> c) \<or> (uses_multiple_lasts t \<and> d)),
      fi (num_templates st), fi (num_investors st), diversity_ratio st,
      float_of_bool (is_single_template st)]" for a b c d st us
    by (simp add: append_feature_row_def emplace_back_def Let_def)
  show ?thesis
  proof (cases "fs firm")
    case None
    note stats = None
    show ?thesis
    proof (cases "usage_lookup um firm (template_id t)")
      case None
      then have "(case um firm of Some m \<Rightarrow> m | None \<Rightarrow> Map.empty) (template_id t) = None"
        by (simp add: usage_lookup_def split: option.splits)
      with None stats assms show ?thesis
        by (simp add: row spec_feature_row_def names dummy_stats_def float_of_bool_def)
    next
      case (Some u)
      then have "(case um firm of Some m \<Rightarrow> m | None \<Rightarrow> Map.empty) (template_id t) = Some u"
        by (simp add: usage_lookup_def split: option.splits)
      with Some stats assms show ?thesis
        by (simp add: row spec_feature_row_def names dummy_stats_def float_of_bool_def)
    qed
  next
    case (Some st)
    note stats = Some
    show ?thesis
    proof (cases "usage_lookup um firm (template_id t)")
      case None
      then have "(case um firm of Some m \<Rightarrow> m | None \<Rightarrow> Map.empty) (template_id t) = None"
        by (simp add: usage_lookup_def split: option.splits)
      with None stats assms show ?thesis
        by (simp add: row spec_feature_row_def names float_of_bool_def)
    next
      case (Some u)
      then have "(case um firm of Some m \<Rightarrow> m | None \<Rightarrow> Map.empty) (template_id t) = Some u"
        by (simp add: usage_lookup_def split: option.splits)
      with Some stats assms show ?thesis
        by (simp add: row spec_feature_row_def names float_of_bool_def)
    qed
  qed
qed

lemma build_feature_rows_concat:
  assumes "fi 0 = 0"
  shows "build_feature_rows fi nd fl firm ts fs um
     = concat (map (\<lambda>t. spec_feature_row fi nd fl (fs firm) (usage_lookup um firm (template_id t)) t) ts)"
proof -
  have "append_feature_row fi (has_middle_name nd) (has_multiple_first_names nd)
      (has_multiple_middle_names nd) (has_multiple_last_names nd) fl
      (case fs firm of Some st \<Rightarrow> st | None \<Rightarrow> dummy_stats)
      (case um firm of Some m \<Rightarrow> m | None \<Rightarrow> Map.empty) []
   = (\<lambda>t. spec_feature_row fi nd fl (fs firm) (usage_lookup um firm (template_id t)) t)"
    by (rule ext) (rule append_feature_row_eq_spec, rule assms)
  then show ?thesis
    by (simp only: build_feature_rows_def Let_def foldl_append_feature_row append_Nil)
qed

lemma length_spec_feature_row: "length (spec_feature_row fi nd fl st us t) = 27"
  by (simp add: spec_feature_row_def)

lemma spec_feature_row_boolean:
  assumes "j \<in> set boolean_features"
  shows "spec_feature_row fi nd fl st us t ! j \<in> {0, 1}"
proof -
  have b: "float_of_bool x = 0 \<or> float_of_bool x = 1" for x
    by (simp add: float_of_bool_def)
  have opt: "(case x of None \<Rightarrow> 0 | Some s \<Rightarrow> float_of_bool (f s)) = 0 \<or>
             (case x of None \<Rightarrow> 0 | Some s \<Rightarrow> float_of_bool (f s)) = 1"
    for x :: "'z option" and f
    by (cases x) (simp_all add: float_of_bool_def)
  from assms consider "j = 0" | "j = 1" | "j = 2" | "j = 3" | "j = 4" | "j = 5" | "j = 6"
    | "j = 7" | "j = 8" | "j = 9" | "j = 12" | "j = 15" | "j = 16" | "j = 17" | "j = 18"
    | "j = 21" | "j = 22" | "j = 26"
    by (auto simp: boolean_features_def)
  then show ?thesis
    by cases (simp_all add: spec_feature_row_def b opt)
qed

text \<open>
  Claim C1. For every decomposed name, flag set, firm name and candidate-template list,
  \<open>build_feature_rows\<close> returns a vector of length 27 times the number of templates; the
  27 entries from position \<open>27 * i\<close> on are the features of \<open>templates[i]\<close> in the
  fixed order of the specification (\<open>spec_feature_row\<close>: \<open>in_firm_templates\<close> first,
  \<open>firm_is_single_template\<close> last); and every boolean feature is encoded as 0 or 1.
  The only thing asked of the \<open>int\<close>-to-\<open>float\<close> conversion is that it maps 0 to 0.
\<close>

theorem C1_build_feature_rows_layout:
  assumes "float_of_int 0 = 0"
  shows "length (build_feature_rows float_of_int nd flags firm templates firm_stats usage_map)
           = 27 * length templates \<and>
         (\<forall>i < length templates.
            take 27 (drop (27 * i)
                 (build_feature_rows float_of_int nd flags firm templates firm_stats usage_map))
              = spec_feature_row float_of_int nd flags (firm_stats firm)
                  (usage_lookup usage_map firm (template_id (templates ! i))) (templates ! i)) \<and>
         (\<forall>i < length templates. \<forall>j \<in> set boolean_features.
            build_feature_rows float_of_int nd flags firm templates firm_stats usage_map
              ! (27 * i + j) \<in> {0, 1})"
proof -
  let ?row = "\<lambda>t. spec_feature_row float_of_int nd flags (firm_stats firm)
                      (usage_lookup usage_map firm (template_id t)) t"
  let ?M = "build_feature_rows float_of_int nd flags firm templates firm_stats usage_map"
  have M: "?M = concat (map ?row templates)"
    using assms by (rule build_feature_rows_concat)
  have len: "\<forall>t \<in> set templates. length (?row t) = 27"
    by (simp add: length_spec_feature_row)
  have total: "length ?M = 27 * length templates"
    unfolding M by (rule length_concat_rows [OF len])
  have rows: "take 27 (drop (27 * i) ?M) = ?row (templates ! i)" if "i < length templates" for i
    unfolding M by (rule take_drop_concat_rows [OF len that])
  have bools: "?M ! (27 * i + j) \<in> {0, 1}"
    if i: "i < length templates" and j: "j \<in> set boolean_features" for i j
  proof -
    from j have j27: "j < 27" by (auto simp: boolean_features_def)
    from i have "27 * i + 27 \<le> 27 * length templates" by simp
    with total j27 have inside: "27 * i + j < length ?M" by simp
    have "?row (templates ! i) ! j = take 27 (drop (27 * i) ?M) ! j"
      by (simp only: rows [OF i])
    also have "\<dots> = ?M ! (27 * i + j)"
      using j27 inside by simp
    finally show ?thesis
      using spec_feature_row_boolean [OF j, of float_of_int nd flags "firm_stats firm"
          "usage_lookup usage_map firm (template_id (templates ! i))" "templates ! i"]
      by simp
  qed
  from total rows bools show ?thesis by blast
qed

text \<open>
  The theorem at a name with a middle name, two templates and the firm \<open>cvc\<close>: 54 entries,
  and the second row is the row of the second template.
\<close>

theorem C1_build_feature_rows_layout_witness:
  "length (build_feature_rows real_of_int (NameDecomposer_ctor icu_nfkd_ascii ''Alice Beth Carter'')
            (extract_flags icu_nfkd_ascii ''Alice Beth Carter'') ''cvc''
            [template_first_dot_last, template_f_middle_last] example_firm_stats
            example_usage_map) = 54 \<and>
   take 27 (drop 27
     (build_feature_rows real_of_int (NameDecomposer_ctor icu_nfkd_ascii ''Alice Beth Carter'')
            (extract_flags icu_nfkd_ascii ''Alice Beth Carter'') ''cvc''
            [template_first_dot_last, template_f_middle_last] example_firm_stats
            example_usage_map))
     = [0, 0, 1, 0, 0, 0, 0, 1, 0, 0, 80, 1 / 4, 0, 0, 0, 1, 0, 0, 0, 0, 0, 0, 1, 3, 12, 1 / 4, 0]"
proof -
  let ?nd = "NameDecomposer_ctor icu_nfkd_ascii ''Alice Beth Carter''"
  let ?fl = "extract_flags icu_nfkd_ascii ''Alice Beth Carter''"
  let ?ts = "[template_first_dot_last, template_f_middle_last]"
  have nd: "?nd = \<lparr>cleaned_full_name = ''alice beth carter'', first_names = [''alice''],
                  middle_names = [''beth''], last_names = [''carter'']\<rparr>"
    by code_simp
  have fl: "?fl = \<lparr>has_german_char = False, has_nfkd_normalized = False, has_nickname = False\<rparr>"
    by code_simp
  have row: "spec_feature_row real_of_int ?nd ?fl (example_firm_stats ''cvc'')
               (usage_lookup example_usage_map ''cvc'' (template_id (?ts ! 1))) (?ts ! 1)
     = [0, 0, 1, 0, 0, 0, 0, 1, 0, 0, 80, 1 / 4, 0, 0, 0, 1, 0, 0, 0, 0, 0, 0, 1, 3, 12, 1 / 4, 0]"
    unfolding nd fl
    by (simp add: spec_feature_row_def usage_lookup_def example_firm_stats_def
        example_usage_map_def template_f_middle_last_def float_of_bool_def)
  have zero: "real_of_int 0 = 0" by simp
  note layout = C1_build_feature_rows_layout [of real_of_int ?nd ?fl "''cvc''" ?ts
      example_firm_stats example_usage_map, OF zero]
  have len: "length (build_feature_rows real_of_int ?nd ?fl ''cvc'' ?ts example_firm_stats
            example_usage_map) = 27 * length ?ts"
    by (rule layout [THEN conjunct1])
  have "(1::nat) < length ?ts" by simp
  then have "take 27 (drop (27 * 1) (build_feature_rows real_of_int ?nd ?fl ''cvc'' ?ts
            example_firm_stats example_usage_map))
         = spec_feature_row real_of_int ?nd ?fl (example_firm_stats ''cvc'')
               (usage_lookup example_usage_map ''cvc'' (template_id (?ts ! 1))) (?ts ! 1)"
    by (rule layout [THEN conjunct2, THEN conjunct1, rule_format])
  then have "take 27 (drop 27 (build_feature_rows real_of_int ?nd ?fl ''cvc'' ?ts
            example_firm_stats example_usage_map))
     = [0, 0, 1, 0, 0, 0, 0, 1, 0, 0, 80, 1 / 4, 0, 0, 0, 1, 0, 0, 0, 0, 0, 0, 1, 3, 12, 1 / 4, 0]"
    by (simp only: row mult_1_right)
  with len show ?thesis by simp
qed

section \<open>Properties of the local-part resolver\<close>







section \<open>Properties of the domain resolver\<close>

lemma best_match_loop_assigned:
  "\<exists>s f d. best_match_loop scorer entries (bs, Some bf, Some bd) = (s, Some f, Some d) \<and>
      bs \<le> s \<and> (\<forall>(f', d') \<in> set entries. scorer f' \<le> s) \<and>
      ((s = bs \<and> f = bf \<and> d = bd) \<or> (s = scorer f \<and> (f, d) \<in> set entries))"
proof (induction entries arbitrary: bs bf bd)
  case Nil
  show ?case by simp
next
  case (Cons e entries)
  obtain firm domain where e: "e = (firm, domain)" by (cases e)
  show ?case
  proof (cases "scorer firm \<ge> bs")
    case True
    from Cons.IH [of "scorer firm" firm domain] obtain s f d where
      "best_match_loop scorer entries (scorer firm, Some firm, Some domain) = (s, Some f, Some d)"
      "scorer firm \<le> s" "\<forall>(f', d') \<in> set entries. scorer f' \<le> s"
      "(s = scorer firm \<and> f = firm \<and> d = domain) \<or> (s = scorer f \<and> (f, d) \<in> set entries)"
      by blast
    with True e show ?thesis by (auto simp: Let_def)
  next
    case False
    from Cons.IH [of bs bf bd] obtain s f d where
      "best_match_loop scorer entries (bs, Some bf, Some bd) = (s, Some f, Some d)"
      "bs \<le> s" "\<forall>(f', d') \<in> set entries. scorer f' \<le> s"
      "(s = bs \<and> f = bf \<and> d = bd) \<or> (s = scorer f \<and> (f, d) \<in> set entries)"
      by blast
    with False e show ?thesis by (auto simp: Let_def)
  qed
qed

lemma findBestFirmMatch_nonempty:
  assumes "directory \<noteq> []"
    and "\<forall>(firm, domain) \<in> set directory. 0 \<le> similarity query firm"
  shows "\<exists>best_domain best_firm.
           findBestFirmMatch similarity query directory =
             Inr (best_domain, \<lparr>canonical_firm = best_firm,
                                 match_score = similarity query best_firm\<rparr>) \<and>
           (best_firm, best_domain) \<in> set directory \<and>
           (\<forall>(firm, domain) \<in> set directory.
              similarity query firm \<le> similarity query best_firm)"
proof -
  from assms(1) obtain f0 d0 rest where dir: "directory = (f0, d0) # rest"
    by (cases directory) auto
  with assms(2) have nonneg: "0 \<le> similarity query f0" by simp
  from best_match_loop_assigned [of "similarity query" rest "similarity query f0" f0 d0]
  obtain s f d where
    loop: "best_match_loop (similarity query) rest (similarity query f0, Some f0, Some d0)
            = (s, Some f, Some d)"
    and ge: "similarity query f0 \<le> s"
    and mx: "\<forall>(f', d') \<in> set rest. similarity query f' \<le> s"
    and src: "(s = similarity query f0 \<and> f = f0 \<and> d = d0) \<or>
              (s = similarity query f \<and> (f, d) \<in> set rest)"
    by blast
  from src have s: "s = similarity query f" and mem: "(f, d) \<in> set directory"
    using dir by auto
  have "findBestFirmMatch similarity query directory =
          Inr (d, \<lparr>canonical_firm = f, match_score = similarity query f\<rparr>)"
    using dir nonneg loop s by (simp add: findBestFirmMatch_def Let_def)
  moreover have "\<forall>(firm, domain) \<in> set directory.
              similarity query firm \<le> similarity query f"
    using dir ge mx s by auto
  ultimately show ?thesis using mem by blast
qed



lemma resolve_domain_fall_through:
  assumes "map_of (firm_to_domain r) (normalize_firm_name raw) = None"
    and "firm_cache r (normalize_firm_name raw) = None"
  shows "resolve_domain similarity r raw =
     (case findBestFirmMatch similarity (normalize_firm_name raw) (firm_to_domain r) of
        Inl e \<Rightarrow> (Inl e, r)
      | Inr best_match \<Rightarrow>
          (Inr (fst best_match, canonical_firm (snd best_match),
                double_to_int (match_score (snd best_match))),
           r\<lparr>firm_cache := (firm_cache r)(normalize_firm_name raw \<mapsto> best_match)\<rparr>))"
  using assms by (simp add: resolve_domain_def Let_def)

lemma resolve_domain_idempotent:
  assumes "resolve_domain similarity r raw = (Inr triple, r')"
  shows "resolve_domain similarity r' raw = (Inr triple, r')"
proof -
  let ?k = "normalize_firm_name raw"
  show ?thesis
  proof (cases "map_of (firm_to_domain r) ?k")
    case (Some d)
    with assms show ?thesis by (auto simp: resolve_domain_def Let_def)
  next
    case None
    note dir = None
    show ?thesis
    proof (cases "firm_cache r ?k")
      case (Some hit)
      with dir assms show ?thesis
        by (auto simp: resolve_domain_def Let_def split: prod.splits)
    next
      case None
      from assms obtain best_match where
        best: "findBestFirmMatch similarity ?k (firm_to_domain r) = Inr best_match"
        and triple: "triple = (fst best_match, canonical_firm (snd best_match),
                double_to_int (match_score (snd best_match)))"
        and r': "r' = r\<lparr>firm_cache := (firm_cache r)(?k \<mapsto> best_match)\<rparr>"
        by (auto simp: resolve_domain_fall_through [OF dir None] split: sum.splits)
      from r' dir have "map_of (firm_to_domain r') ?k = None" by simp
      moreover from r' have "firm_cache r' ?k = Some best_match" by simp
      ultimately show ?thesis
        using triple by (simp add: resolve_domain_def Let_def split: prod.splits)
    qed
  qed
qed

lemma example_similarity_nonneg: "0 \<le> example_similarity query firm"
  by (simp add: example_similarity_def)

text \<open>
  Claim C6. A firm name whose lowercased key is in the directory resolves to
  \<open>(directory[key], key, 100)\<close> and leaves the resolver (hence the cache) as it was. After
  a call that returned a triple, a second call with the same input returns the same triple
  and leaves the cache as the first call left it. The first call does return a triple when
  the key is in the directory or in the cache, or when the directory is not empty and the
  similarity scores are not negative.
\<close>

theorem C6_domain_resolver_fixed_points:
  "(map_of (firm_to_domain r) (normalize_firm_name raw) = Some domain \<longrightarrow>
      resolve_domain similarity r raw = (Inr (domain, normalize_firm_name raw, 100), r)) \<and>
   (\<forall>triple r'. resolve_domain similarity r raw = (Inr triple, r') \<longrightarrow>
      resolve_domain similarity r' raw = (Inr triple, r')) \<and>
   (map_of (firm_to_domain r) (normalize_firm_name raw) \<noteq> None \<or>
    firm_cache r (normalize_firm_name raw) \<noteq> None \<or>
    (firm_to_domain r \<noteq> [] \<and>
     (\<forall>(firm, domain) \<in> set (firm_to_domain r). 0 \<le> similarity (normalize_firm_name raw) firm))
    \<longrightarrow> (\<exists>triple r'. resolve_domain similarity r raw = (Inr triple, r')))"
proof (intro conjI impI allI)
  assume "map_of (firm_to_domain r) (normalize_firm_name raw) = Some domain"
  then show "resolve_domain similarity r raw = (Inr (domain, normalize_firm_name raw, 100), r)"
    by (simp add: resolve_domain_def Let_def)
next
  fix triple r'
  assume "resolve_domain similarity r raw = (Inr triple, r')"
  then show "resolve_domain similarity r' raw = (Inr triple, r')"
    by (rule resolve_domain_idempotent)
next
  let ?k = "normalize_firm_name raw"
  assume cases: "map_of (firm_to_domain r) ?k \<noteq> None \<or> firm_cache r ?k \<noteq> None \<or>
    (firm_to_domain r \<noteq> [] \<and>
     (\<forall>(firm, domain) \<in> set (firm_to_domain r). 0 \<le> similarity ?k firm))"
  show "\<exists>triple r'. resolve_domain similarity r raw = (Inr triple, r')"
  proof (cases "map_of (firm_to_domain r) ?k")
    case (Some d)
    then show ?thesis by (simp add: resolve_domain_def Let_def)
  next
    case None
    note dir = None
    show ?thesis
    proof (cases "firm_cache r ?k")
      case (Some hit)
      with dir show ?thesis by (simp add: resolve_domain_def Let_def split: prod.splits)
    next
      case None
      with dir cases have "firm_to_domain r \<noteq> []"
        and "\<forall>(firm, domain) \<in> set (firm_to_domain r). 0 \<le> similarity ?k firm"
        by auto
      from findBestFirmMatch_nonempty [of "firm_to_domain r" similarity ?k, OF this] show ?thesis
        by (auto simp: resolve_domain_fall_through [OF dir None])
    qed
  qed
qed


text \<open>
  On the example resolver: \<open>CVC\<close> is a directory key; \<open>CVX\<close> goes through fuzzy
  matching once and is answered from the cache the second time.
\<close>

theorem C6_domain_resolver_fixed_points_witness:
  "resolve_domain example_similarity example_resolver ''CVC'' =
     (Inr (''cvc.com'', ''cvc'', 100), example_resolver) \<and>
   (\<exists>triple r'. resolve_domain example_similarity example_resolver ''CVX'' = (Inr triple, r') \<and>
      resolve_domain example_similarity r' ''CVX'' = (Inr triple, r'))"
proof -
  let ?dir = "firm_to_domain example_resolver"
  have key: "normalize_firm_name ''CVC'' = ''cvc''"
    by code_simp
  have hit: "map_of ?dir (normalize_firm_name ''CVC'') = Some ''cvc.com''"
    unfolding key by (simp add: example_resolver_def)
  have first: "resolve_domain example_similarity example_resolver ''CVC'' =
     (Inr (''cvc.com'', ''cvc'', 100), example_resolver)"
    using C6_domain_resolver_fixed_points [of example_resolver "''CVC''" "''cvc.com''"
        example_similarity] hit key
    by simp
  have "?dir \<noteq> [] \<and>
     (\<forall>(firm, domain) \<in> set ?dir. 0 \<le> example_similarity (normalize_firm_name ''CVX'') firm)"
    by (simp add: example_resolver_def example_similarity_nonneg)
  with C6_domain_resolver_fixed_points [of example_resolver "''CVX''" "''cvc.com''"
        example_similarity]
  have "(\<forall>triple r'. resolve_domain example_similarity example_resolver ''CVX'' = (Inr triple, r') \<longrightarrow>
      resolve_domain example_similarity r' ''CVX'' = (Inr triple, r'))"
    and "\<exists>triple r'. resolve_domain example_similarity example_resolver ''CVX'' = (Inr triple, r')"
    by blast+
  then have "\<exists>triple r'. resolve_domain example_similarity example_resolver ''CVX'' = (Inr triple, r') \<and>
      resolve_domain example_similarity r' ''CVX'' = (Inr triple, r')"
    by blast
  with first show ?thesis by blast
qed



section \<open>Properties of the template predictors\<close>

lemma build_results_Inr:
  assumes "length scores \<le> length templates"
  shows "build_results scores templates =
           Inr (map (\<lambda>i. \<lparr>pred_index = i, pred_score = scores ! i,
                            pred_template_id = template_id (templates ! i),
                            pred_metadata = templates ! i\<rparr>) [0..<length scores])"
  using assms by (simp add: build_results_def)

lemma select_top_take:
  assumes "length (partial_sort cmp (min top_k (length results)) results) = length results"
  shows "select_top partial_sort cmp top_k results =
           take (min top_k (length results)) (partial_sort cmp (min top_k (length results)) results)"
proof (cases "top_k < length results")
  case True
  then have "min top_k (length results) = top_k" by simp
  with assms True show ?thesis by (simp add: select_top_def Let_def)
next
  case False
  then have "min top_k (length results) = length results" by simp
  with assms False show ?thesis by (simp add: select_top_def Let_def)
qed

lemma select_top_contract:
  assumes c: "partial_sort_contract cmp (min top_k (length results)) results
                (partial_sort cmp (min top_k (length results)) results)"
  shows "length (select_top partial_sort cmp top_k results) = min top_k (length results)"
    and "sorted_wrt (\<lambda>a b. \<not> cmp b a) (select_top partial_sort cmp top_k results)"
    and "set (select_top partial_sort cmp top_k results) \<subseteq> set results"
    and "distinct (map f results) \<Longrightarrow> distinct (map f (select_top partial_sort cmp top_k results))"
    and "\<And>a b. a \<in> set (select_top partial_sort cmp top_k results) \<Longrightarrow> b \<in> set results \<Longrightarrow>
           b \<notin> set (select_top partial_sort cmp top_k results) \<Longrightarrow> \<not> cmp b a"
proof -
  let ?k = "min top_k (length results)"
  let ?ys = "partial_sort cmp ?k results"
  from c have ms: "mset ?ys = mset results"
    and srt: "sorted_wrt (\<lambda>a b. \<not> cmp b a) (take ?k ?ys)"
    and rest: "list_all (\<lambda>a. list_all (\<lambda>b. \<not> cmp b a) (drop ?k ?ys)) (take ?k ?ys)"
    by (simp_all add: partial_sort_contract_def)
  from ms have len: "length ?ys = length results" by (rule mset_eq_length)
  from ms have st: "set ?ys = set results" by (rule mset_eq_setD)
  have top: "select_top partial_sort cmp top_k results = take ?k ?ys"
    using len by (rule select_top_take)
  show "length (select_top partial_sort cmp top_k results) = ?k"
    by (simp add: top len)
  show "sorted_wrt (\<lambda>a b. \<not> cmp b a) (select_top partial_sort cmp top_k results)"
    by (simp only: top srt)
  show "set (select_top partial_sort cmp top_k results) \<subseteq> set results"
    unfolding top using set_take_subset [of ?k ?ys] st by simp
  show "distinct (map f (select_top partial_sort cmp top_k results))" if "distinct (map f results)"
  proof -
    from ms have "mset (map f ?ys) = mset (map f results)" by simp
    with that have "distinct (map f ?ys)" by (metis mset_eq_imp_distinct_iff)
    then show ?thesis unfolding top by (simp add: take_map [symmetric] distinct_take)
  qed
  show "\<not> cmp b a" if a: "a \<in> set (select_top partial_sort cmp top_k results)"
    and b: "b \<in> set results" and nb: "b \<notin> set (select_top partial_sort cmp top_k results)" for a b
  proof -
    from b st have "b \<in> set ?ys" by simp
    then have "b \<in> set (take ?k ?ys) \<union> set (drop ?k ?ys)"
      by (metis append_take_drop_id set_append)
    with nb have "b \<in> set (drop ?k ?ys)" unfolding top by blast
    with rest a show ?thesis unfolding top by (auto simp: list_all_iff)
  qed
qed


text \<open>
  Claim C2, as the code has it. Let the matrix hold \<open>N > 0\<close> rows for \<open>N\<close> templates, let
  the model return \<open>N\<close> scores, and let \<open>std::partial_sort\<close> keep the promise of the C++
  standard on this call. Then \<open>predict_top_templates\<close> returns exactly \<open>min(top_k, N)\<close>
  predictions (so at most \<open>top_k\<close>), sorted by score descending; every prediction is the
  row it names (score, template id and metadata of \<open>templates[index]\<close>); no row index
  occurs twice, and no template id occurs twice when the ids of the templates are distinct;
  no row left out has a greater score than a row returned. The code compares scores only:
  nothing is promised about the order of rows with equal scores.
\<close>

theorem C2_top_k_selection:
  assumes shape: "flat_matrix \<noteq> []" "templates \<noteq> []"
      "length flat_matrix = length templates * FEATURES_PER_ROW"
    and scores: "predict_scores booster flat_matrix = Inr scores"
      "length scores = length templates"
    and contract: "\<forall>results. build_results scores templates = Inr results \<longrightarrow>
      partial_sort_contract score_greater (min top_k (length results)) results
        (partial_sort score_greater (min top_k (length results)) results)"
  shows "\<exists>selected. predict_top_templates partial_sort booster flat_matrix templates top_k = Inr selected \<and>
      length selected = min top_k (length templates) \<and> length selected \<le> top_k \<and>
      sorted_wrt (\<lambda>a b. pred_score a \<ge> pred_score b) selected \<and>
      distinct (map pred_index selected) \<and>
      (distinct (map template_id templates) \<longrightarrow> distinct (map pred_template_id selected)) \<and>
      (\<forall>p \<in> set selected. pred_index p < length templates \<and>
         pred_score p = scores ! pred_index p \<and>
         pred_template_id p = template_id (templates ! pred_index p) \<and>
         pred_metadata p = templates ! pred_index p) \<and>
      (\<forall>i < length templates. i \<notin> pred_index ` set selected \<longrightarrow>
         (\<forall>p \<in> set selected. scores ! i \<le> pred_score p))"
proof -
  let ?mk = "\<lambda>i. \<lparr>pred_index = i, pred_score = scores ! i,
                   pred_template_id = template_id (templates ! i),
                   pred_metadata = templates ! i\<rparr>"
  let ?n = "length templates"
  let ?results = "map ?mk [0..<?n]"
  let ?selected = "select_top partial_sort score_greater top_k ?results"
  have built: "build_results scores templates = Inr ?results"
    using build_results_Inr [of scores templates] scores(2) by simp
  with contract have c: "partial_sort_contract score_greater (min top_k (length ?results))
      ?results (partial_sort score_greater (min top_k (length ?results)) ?results)"
    by blast
  note sel = select_top_contract [of score_greater top_k ?results partial_sort, OF c]
  have run: "predict_top_templates partial_sort booster flat_matrix templates top_k = Inr ?selected"
    using shape scores(1) built by (simp add: predict_top_templates_def)
  have len: "length ?selected = min top_k ?n"
    using sel(1) by simp
  have srt: "sorted_wrt (\<lambda>a b. pred_score a \<ge> pred_score b) ?selected"
    using sel(2) by (simp add: score_greater_def not_less)
  have idx: "map pred_index ?results = [0..<?n]"
    by (simp add: comp_def)
  then have "distinct (map pred_index ?results)" by simp
  then have dist: "distinct (map pred_index ?selected)" by (rule sel(4))
  have elems: "pred_index p < ?n \<and> pred_score p = scores ! pred_index p \<and>
         pred_template_id p = template_id (templates ! pred_index p) \<and>
         pred_metadata p = templates ! pred_index p" if "p \<in> set ?selected" for p
    using sel(3) that by auto
  have ids: "distinct (map pred_template_id ?selected)" if "distinct (map template_id templates)"
  proof -
    have "distinct (map pred_template_id ?results)"
    proof -
      have "map pred_template_id ?results = map template_id templates"
        by (rule nth_equalityI) simp_all
      with that show ?thesis by simp
    qed
    then show ?thesis by (rule sel(4))
  qed
  have best: "scores ! i \<le> pred_score p"
    if i: "i < ?n" and out: "i \<notin> pred_index ` set ?selected" and p: "p \<in> set ?selected" for i p
  proof -
    from i have mem: "?mk i \<in> set ?results" by simp
    from out have "?mk i \<notin> set ?selected" by force
    from sel(5) [OF p mem this] show ?thesis by (simp add: score_greater_def)
  qed
  from run len srt dist ids elems best show ?thesis
    by (intro exI [of _ ?selected]) (simp add: min_def)
qed


text \<open>
  The theorem on three templates scored 40, 80 and 120, with libstdc++'s \<open>partial_sort\<close>
  and \<open>top_k = 2\<close>.
\<close>

theorem C2_top_k_selection_witness:
  "\<exists>selected. predict_top_templates std_partial_sort example_booster
            (build_feature_rows real_of_int (NameDecomposer_ctor icu_nfkd_ascii ''John Smith'')
               (extract_flags icu_nfkd_ascii ''John Smith'') ''cvc''
               [template_flast, template_f_middle_last, template_first_dot_last]
               example_firm_stats example_usage_map)
            [template_flast, template_f_middle_last, template_first_dot_last] 2 = Inr selected \<and>
      length selected = 2 \<and>
      sorted_wrt (\<lambda>a b. pred_score a \<ge> pred_score b) selected \<and>
      distinct (map pred_index selected) \<and>
      distinct (map pred_template_id selected)"
proof -
  let ?ts = "[template_flast, template_f_middle_last, template_first_dot_last]"
  let ?flat = "build_feature_rows real_of_int (NameDecomposer_ctor icu_nfkd_ascii ''John Smith'')
               (extract_flags icu_nfkd_ascii ''John Smith'') ''cvc'' ?ts
               example_firm_stats example_usage_map"
  let ?results = "[\<lparr>pred_index = 0, pred_score = 40, pred_template_id = 12,
                     pred_metadata = template_flast\<rparr>,
                   \<lparr>pred_index = 1, pred_score = 80, pred_template_id = 9,
                     pred_metadata = template_f_middle_last\<rparr>,
                   \<lparr>pred_index = 2, pred_score = 120, pred_template_id = 7,
                     pred_metadata = template_first_dot_last\<rparr>]"
  have shape: "?flat \<noteq> []" "?ts \<noteq> []" "length ?flat = length ?ts * FEATURES_PER_ROW"
    by code_simp+
  have scores: "predict_scores example_booster ?flat = Inr [40, 80, 120]"
    by code_simp
  have built: "build_results [40, 80, 120] ?ts = Inr ?results"
    by code_simp
  have sorted: "std_partial_sort score_greater (min 2 (length ?results)) ?results =
      [?results ! 2, ?results ! 1, ?results ! 0]"
    by code_simp
  have "partial_sort_contract score_greater (min 2 (length ?results)) ?results
           (std_partial_sort score_greater (min 2 (length ?results)) ?results)"
    unfolding sorted by (simp add: partial_sort_contract_def score_greater_def)
  with built have contract: "\<forall>results. build_results [40, 80, 120] ?ts = Inr results \<longrightarrow>
      partial_sort_contract score_greater (min 2 (length results)) results
        (std_partial_sort score_greater (min 2 (length results)) results)"
    by simp
  have ids: "distinct (map template_id ?ts)"
    by (simp add: template_flast_def template_f_middle_last_def template_first_dot_last_def)
  from C2_top_k_selection [of ?flat ?ts example_booster "[40, 80, 120]" 2 std_partial_sort,
      OF shape scores _ contract] ids show ?thesis
    by auto
qed

text \<open>
  Two runs with libstdc++'s \<open>partial_sort\<close> and \<open>top_k = 2\<close>. Three rows scored 1, 0
  and 1: both rows of score 1 are returned, the one with index 2 before the one with index
  0. Four rows scored 1, 0, 1 and 2: next to the row of score 2, the row with index 2 is
  returned and the row with index 0, of the same score 1, is left out. Neither the order nor
  the choice among equal scores goes by ascending index.
\<close>

theorem C2_counterexample:
  "(case predict_top_templates std_partial_sort tied_booster (replicate 81 0)
           [template_first_dot_last, template_f_middle_last, template_flast] 2 of
      Inr selected \<Rightarrow> map (\<lambda>p. (pred_index p, pred_score p, pred_template_id p)) selected
    | Inl e \<Rightarrow> [])
   = [(2, 1, 12), (0, 1, 7)] \<and>
   (case predict_top_templates std_partial_sort tied_booster4 (replicate 108 0)
           [template_first_dot_last, template_f_middle_last, template_flast, template_last] 2 of
      Inr selected \<Rightarrow> map (\<lambda>p. (pred_index p, pred_score p, pred_template_id p)) selected
    | Inl e \<Rightarrow> [])
   = [(3, 2, 15), (2, 1, 12)]"
  by code_simp

text \<open>
  Claim C5. The LightGBM predictor returns early, without an error, when the matrix or the
  template list is empty, and only then compares the sizes: an empty matrix with one
  template (\<open>0 \<noteq> 27 * 1\<close>) and one row with no template (\<open>27 \<noteq> 27 * 0\<close>) both give
  an empty result, not the argument error. The CatBoost predictor checks the sizes first and
  raises \<open>std::invalid_argument\<close> on the same inputs.
\<close>

theorem C5_empty_input_skips_size_check:
  "predict_top_templates partial_sort booster [] [template_flast] 3 = Inr [] \<and>
   predict_top_templates partial_sort booster (replicate 27 0) [] 3 = Inr [] \<and>
   catboost_predict_top_templates partial_sort calc [] [template_flast] 3 = Inl InvalidArgument \<and>
   catboost_predict_top_templates partial_sort calc (replicate 27 0) [] 3 = Inl InvalidArgument"
  by (simp add: predict_top_templates_def catboost_predict_top_templates_def FEATURES_PER_ROW_def)

text \<open>
  When neither is empty, a size mismatch is the argument error in the LightGBM predictor as
  well.
\<close>

lemma predict_top_templates_size_mismatch:
  assumes "flat_matrix \<noteq> []" "templates \<noteq> []"
    and "length flat_matrix \<noteq> length templates * FEATURES_PER_ROW"
  shows "predict_top_templates partial_sort booster flat_matrix templates top_k = Inl InvalidArgument"
  using assms by (simp add: predict_top_templates_def)

section \<open>Properties of the prediction engine\<close>

text \<open>
  Claim C3. \<open>predict\<close> runs the pipeline with the complex predictor and the complex template
  set when at least one of \<open>has_middle_name\<close>, \<open>has_multiple_first_names\<close>,
  \<open>has_multiple_last_names\<close> (of the decomposed name), \<open>has_german_char\<close>,
  \<open>has_nfkd_normalized\<close> (of the extracted flags) holds, and with the standard predictor
  and the standard template set otherwise; the feature matrix and the prediction use the
  same class.
\<close>

theorem C3_selection_branch:
  "predict icu float_of_int similarity eng investor_name firm_name top_k domain_opt =
     (if has_middle_name (NameDecomposer_ctor icu investor_name) \<or>
         has_multiple_first_names (NameDecomposer_ctor icu investor_name) \<or>
         has_multiple_last_names (NameDecomposer_ctor icu investor_name) \<or>
         has_german_char (extract_flags icu investor_name) \<or>
         has_nfkd_normalized (extract_flags icu investor_name)
      then spec_pipeline (complex_predictor eng) (complex_templates eng) icu float_of_int
             similarity eng investor_name firm_name top_k domain_opt
      else spec_pipeline (std_predictor eng) (std_templates eng) icu float_of_int
             similarity eng investor_name firm_name top_k domain_opt)"
  by (simp add: predict_def spec_pipeline_def Let_def split: prod.splits sum.splits)

text \<open>
  \<open>Alice Beth Carter\<close> has a middle name: the complex class. \<open>John Smith\<close> has none of
  the five properties: the standard class.
\<close>

theorem C3_selection_branch_witness:
  "predict icu_nfkd_ascii real_of_int example_similarity example_engine ''Alice Beth Carter''
       ''cvc'' 3 None =
     spec_pipeline (complex_predictor example_engine) (complex_templates example_engine)
       icu_nfkd_ascii real_of_int example_similarity example_engine ''Alice Beth Carter''
       ''cvc'' 3 None \<and>
   predict icu_nfkd_ascii real_of_int example_similarity example_engine ''John Smith''
       ''cvc'' 3 None =
     spec_pipeline (std_predictor example_engine) (std_templates example_engine)
       icu_nfkd_ascii real_of_int example_similarity example_engine ''John Smith''
       ''cvc'' 3 None"
proof -
  have complex: "has_middle_name (NameDecomposer_ctor icu_nfkd_ascii ''Alice Beth Carter'')"
    by code_simp
  have standard:
    "\<not> (has_middle_name (NameDecomposer_ctor icu_nfkd_ascii ''John Smith'') \<or>
        has_multiple_first_names (NameDecomposer_ctor icu_nfkd_ascii ''John Smith'') \<or>
        has_multiple_last_names (NameDecomposer_ctor icu_nfkd_ascii ''John Smith'') \<or>
        has_german_char (extract_flags icu_nfkd_ascii ''John Smith'') \<or>
        has_nfkd_normalized (extract_flags icu_nfkd_ascii ''John Smith''))"
    by code_simp
  show ?thesis
    using C3_selection_branch [of icu_nfkd_ascii real_of_int example_similarity example_engine
        "''Alice Beth Carter''" "''cvc''" 3 None]
      C3_selection_branch [of icu_nfkd_ascii real_of_int example_similarity example_engine
        "''John Smith''" "''cvc''" 3 None]
      complex standard
    by (simp only: if_True if_False simp_thms)
qed

lemma format_results_rows:
  assumes "format_results nd d preds acc = Inr rows"
  shows "\<forall>row \<in> set rows. row \<in> set acc \<or>
           (\<exists>pred \<in> set preds. \<exists>local_part.
              resolve_email_local_part nd (token_seq (pred_metadata pred)) = Inr (Some local_part) \<and>
              email row = local_part @ ''@'' @ d \<and> score row = pred_score pred \<and>
              result_template_id row = pred_template_id pred)"
  using assms
proof (induction preds arbitrary: acc)
  case Nil
  then show ?case by simp
next
  case (Cons pred preds)
  show ?case
  proof (cases "resolve_email_local_part nd (token_seq (pred_metadata pred))")
    case (Inl e)
    with Cons.prems show ?thesis by simp
  next
    case (Inr res)
    show ?thesis
    proof (cases res)
      case None
      with Inr Cons.prems have "format_results nd d preds acc = Inr rows" by simp
      from Cons.IH [OF this] show ?thesis by auto
    next
      case (Some local_part)
      let ?row = "\<lparr>email = local_part @ ''@'' @ d, score = pred_score pred,
               result_template_id = pred_template_id pred, verification_result = None,
               enrichment_result = None\<rparr>"
      from Some Inr Cons.prems have "format_results nd d preds (acc @ [?row]) = Inr rows"
        by simp
      from Cons.IH [OF this] Some Inr show ?thesis by auto
    qed
  qed
qed

lemma verify_loop_keeps:
  assumes "verify_loop verifier rs visited best = (out, b)"
  shows "map (\<lambda>r. (email r, score r, result_template_id r)) out =
         map (\<lambda>r. (email r, score r, result_template_id r)) (visited @ rs)"
  using assms
proof (induction rs arbitrary: visited best)
  case Nil
  then show ?case by simp
next
  case (Cons r rs)
  let ?r' = "r\<lparr>verification_result := verifier (email r)\<rparr>"
  from Cons.prems obtain best' where "verify_loop verifier rs (visited @ [?r']) best' = (out, b)"
    by (auto simp: Let_def split: option.splits)
  from Cons.IH [OF this] show ?case by simp
qed

lemma post_hooks_keeps:
  "map (\<lambda>r. (email r, score r, result_template_id r)) (post_hooks eng investor_name firm_name results)
     = map (\<lambda>r. (email r, score r, result_template_id r)) results"
proof -
  obtain vs b where v: "(case verification_pipeline eng of
               Some verifier \<Rightarrow> verify_loop verifier results [] None
             | None \<Rightarrow> (results, None)) = (vs, b)"
    by (cases "case verification_pipeline eng of
               Some verifier \<Rightarrow> verify_loop verifier results [] None
             | None \<Rightarrow> (results, None)")
  then have keep: "map (\<lambda>r. (email r, score r, result_template_id r)) vs =
         map (\<lambda>r. (email r, score r, result_template_id r)) results"
    using verify_loop_keeps [of _ results "[]" None vs b]
    by (auto split: option.splits)
  have upd: "map (\<lambda>r. (email r, score r, result_template_id r))
               (vs[i := (vs ! i)\<lparr>enrichment_result := x\<rparr>])
             = map (\<lambda>r. (email r, score r, result_template_id r)) vs" for i x
  proof (cases "i < length vs")
    case True
    then show ?thesis by (simp add: map_update list_update_same_conv)
  next
    case False
    then have "vs[i := (vs ! i)\<lparr>enrichment_result := x\<rparr>] = vs"
      by (simp add: list_update_beyond)
    then show ?thesis by (simp only:)
  qed
  show ?thesis
    unfolding post_hooks_def v
    using keep upd by (auto simp: Let_def split: option.splits)
qed


lemma predict_unfold:
  "predict icu float_of_int similarity eng investor_name firm_name top_k domain_opt =
     (case resolve_domain_string similarity eng firm_name domain_opt of
        (Inl e, eng') \<Rightarrow> (Inl e, eng')
      | (Inr domain_string, eng') \<Rightarrow>
          (case top_predictions_of icu float_of_int eng investor_name firm_name top_k of
             Inl e \<Rightarrow> (Inl e, eng')
           | Inr preds \<Rightarrow>
               (case format_results (NameDecomposer_ctor icu investor_name) domain_string preds [] of
                  Inl e \<Rightarrow> (Inl e, eng')
                | Inr results \<Rightarrow>
                    (Inr (post_hooks eng investor_name firm_name results), eng'))))"
  by (simp add: predict_def top_predictions_of_def Let_def split: prod.splits sum.splits)

lemma count_at_sign:
  "count_list (local_part @ ''@'' @ d) (CHR ''@'') =
     1 + count_list local_part (CHR ''@'') + count_list d (CHR ''@'')"
  by (induction local_part) simp_all

lemma split_at_sign:
  assumes "CHR ''@'' \<notin> set local_part"
  shows "takeWhile (\<lambda>c. c \<noteq> CHR ''@'') (local_part @ ''@'' @ d) = local_part"
    and "tl (dropWhile (\<lambda>c. c \<noteq> CHR ''@'') (local_part @ ''@'' @ d)) = d"
  using assms by (induction local_part) auto

text \<open>
  Claim C9, as the code has it. Every row that \<open>predict\<close> returns has the email
  \<open>local_part @ "@" @ domain\<close>, where \<open>local_part\<close> is the rendered local-part of the
  template of one of the top predictions, whose template id the row carries, and
  \<open>domain\<close> is the resolved domain. The number of \<open>@\<close> in the email is one more than
  their number in the local-part and in the domain together: it is exactly one when, and
  only when, neither contains an \<open>@\<close>, which the code does not check. When the local-part
  has no \<open>@\<close>, the text before the first \<open>@\<close> of the email is the local-part and the text
  after it is the domain.
\<close>

theorem C9_email_is_local_part_at_domain:
  assumes "predict icu float_of_int similarity eng investor_name firm_name top_k domain_opt
             = (Inr rows, eng')"
  shows "\<exists>domain_string preds.
      resolve_domain_string similarity eng firm_name domain_opt = (Inr domain_string, eng') \<and>
      top_predictions_of icu float_of_int eng investor_name firm_name top_k = Inr preds \<and>
      (\<forall>row \<in> set rows. \<exists>pred \<in> set preds. \<exists>local_part.
         resolve_email_local_part (NameDecomposer_ctor icu investor_name)
           (token_seq (pred_metadata pred)) = Inr (Some local_part) \<and>
         result_template_id row = pred_template_id pred \<and>
         email row = local_part @ ''@'' @ domain_string \<and>
         count_list (email row) (CHR ''@'') =
           1 + count_list local_part (CHR ''@'') + count_list domain_string (CHR ''@'') \<and>
         (CHR ''@'' \<notin> set local_part \<longrightarrow>
            takeWhile (\<lambda>c. c \<noteq> CHR ''@'') (email row) = local_part \<and>
            tl (dropWhile (\<lambda>c. c \<noteq> CHR ''@'') (email row)) = domain_string))"
proof -
  let ?nd = "NameDecomposer_ctor icu investor_name"
  from assms obtain domain_string preds results where
    dom: "resolve_domain_string similarity eng firm_name domain_opt = (Inr domain_string, eng')"
    and preds: "top_predictions_of icu float_of_int eng investor_name firm_name top_k = Inr preds"
    and fmt: "format_results ?nd domain_string preds [] = Inr results"
    and rows: "rows = post_hooks eng investor_name firm_name results"
    by (auto simp: predict_unfold split: prod.splits sum.splits)
  have keep: "map (\<lambda>r. (email r, score r, result_template_id r)) rows =
              map (\<lambda>r. (email r, score r, result_template_id r)) results"
    unfolding rows by (rule post_hooks_keeps)
  have "\<exists>pred \<in> set preds. \<exists>local_part.
         resolve_email_local_part ?nd (token_seq (pred_metadata pred)) = Inr (Some local_part) \<and>
         result_template_id row = pred_template_id pred \<and>
         email row = local_part @ ''@'' @ domain_string \<and>
         count_list (email row) (CHR ''@'') =
           1 + count_list local_part (CHR ''@'') + count_list domain_string (CHR ''@'') \<and>
         (CHR ''@'' \<notin> set local_part \<longrightarrow>
            takeWhile (\<lambda>c. c \<noteq> CHR ''@'') (email row) = local_part \<and>
            tl (dropWhile (\<lambda>c. c \<noteq> CHR ''@'') (email row)) = domain_string)"
    if "row \<in> set rows" for row
  proof -
    from that have "(email row, score row, result_template_id row)
        \<in> set (map (\<lambda>r. (email r, score r, result_template_id r)) rows)"
      by force
    with keep obtain row' where row': "row' \<in> set results" "email row' = email row"
      "result_template_id row' = result_template_id row"
      by auto
    from format_results_rows [OF fmt] row'(1) obtain pred local_part where
      "pred \<in> set preds"
      "resolve_email_local_part ?nd (token_seq (pred_metadata pred)) = Inr (Some local_part)"
      "email row' = local_part @ ''@'' @ domain_string"
      "result_template_id row' = pred_template_id pred"
      by auto
    with row'(2,3) show ?thesis
      using count_at_sign [of local_part domain_string] split_at_sign [of local_part domain_string]
      by (intro bexI [of _ pred] exI [of _ local_part]) simp_all
  qed
  with dom preds show ?thesis by blast
qed

text \<open>
  The query \<open>John Smith\<close> at \<open>cvc\<close>, the domain coming from the resolver.
\<close>

theorem C9_email_is_local_part_at_domain_witness:
  "\<exists>domain_string preds.
      top_predictions_of icu_nfkd_ascii real_of_int example_engine ''John Smith'' ''cvc'' 3
        = Inr preds \<and>
      (\<exists>pred \<in> set preds. \<exists>local_part.
         resolve_email_local_part (NameDecomposer_ctor icu_nfkd_ascii ''John Smith'')
           (token_seq (pred_metadata pred)) = Inr (Some local_part) \<and>
         pred_template_id pred = 7 \<and>
         ''john.smith@cvc.com'' = local_part @ ''@'' @ domain_string \<and>
         count_list ''john.smith@cvc.com'' (CHR ''@'') =
           1 + count_list local_part (CHR ''@'') + count_list domain_string (CHR ''@''))"
proof -
  let ?run = "predict icu_nfkd_ascii real_of_int example_similarity example_engine
                ''John Smith'' ''cvc'' 3 None"
  let ?row = "\<lparr>email = ''john.smith@cvc.com'', score = 120, result_template_id = 7,
               verification_result = None, enrichment_result = None\<rparr>"
  let ?rows = "[?row,
                \<lparr>email = ''jsmith@cvc.com'', score = 40, result_template_id = 12,
                  verification_result = None, enrichment_result = None\<rparr>]"
  have "fst ?run = Inr ?rows"
    by code_simp
  then have run: "?run = (Inr ?rows, snd ?run)"
    by (metis prod.collapse)
  from C9_email_is_local_part_at_domain [OF run] obtain domain_string preds where
    "top_predictions_of icu_nfkd_ascii real_of_int example_engine ''John Smith'' ''cvc'' 3
        = Inr preds"
    and all: "\<forall>row \<in> set ?rows. \<exists>pred \<in> set preds. \<exists>local_part.
         resolve_email_local_part (NameDecomposer_ctor icu_nfkd_ascii ''John Smith'')
           (token_seq (pred_metadata pred)) = Inr (Some local_part) \<and>
         result_template_id row = pred_template_id pred \<and>
         email row = local_part @ ''@'' @ domain_string \<and>
         count_list (email row) (CHR ''@'') =
           1 + count_list local_part (CHR ''@'') + count_list domain_string (CHR ''@'') \<and>
         (CHR ''@'' \<notin> set local_part \<longrightarrow>
            takeWhile (\<lambda>c. c \<noteq> CHR ''@'') (email row) = local_part \<and>
            tl (dropWhile (\<lambda>c. c \<noteq> CHR ''@'') (email row)) = domain_string)"
    by blast
  moreover have "?row \<in> set ?rows" by simp
  ultimately show ?thesis
    by (metis (no_types, lifting) EmailPredictionResult.select_convs(1,3))
qed

text \<open>
  A name that contains an \<open>@\<close> keeps it through cleaning and rendering: the first row has
  two \<open>@\<close>.
\<close>

theorem C9_counterexample:
  "fst (predict icu_nfkd_ascii real_of_int example_similarity example_engine ''a@b Smith''
          ''cvc'' 3 (Some ''cvc.com''))
     = Inr [\<lparr>email = ''a@b.smith@cvc.com'', score = 120, result_template_id = 7,
              verification_result = None, enrichment_result = None\<rparr>,
            \<lparr>email = ''asmith@cvc.com'', score = 40, result_template_id = 12,
              verification_result = None, enrichment_result = None\<rparr>] \<and>
   count_list ''a@b.smith@cvc.com'' (CHR ''@'') = 2"
  by code_simp

end
